theory Spec2Isabelle
  imports Main "HOL-Library.Word" "HOL-Library.AList" "HOL-Library.List_Lexorder"
    "HOL-Library.Char_ord"
begin

unbundle bit_operations_syntax

section \<open>Values shared by the job entity, the publisher and the service\<close>

subsection \<open>UUIDs (github.com/google/uuid)\<close>

text \<open>
  A \<^verbatim>\<open>uuid.UUID\<close> is a \<^verbatim>\<open>[16]byte\<close>; it is kept as one 128-bit word, byte 0 being the
  most significant one. \<^verbatim>\<open>uuid.Nil\<close> is the all-zero value. \<^verbatim>\<open>uuid.New()\<close> reads 16
  random bytes and then forces the version and variant bits
  (\<^verbatim>\<open>uuid[6] = (uuid[6] & 0x0f) | 0x40; uuid[8] = (uuid[8] & 0x3f) | 0x80\<close>); the random
  bytes are an explicit argument. \<^verbatim>\<open>String()\<close> is the canonical lower-case
  8-4-4-4-12 hexadecimal form.
\<close>

type_synonym uuid = "128 word"

definition uuid_Nil :: uuid where
  "uuid_Nil = 0"

definition uuid_New :: "128 word \<Rightarrow> uuid" where
  "uuid_New rnd =
     (((rnd AND NOT (push_bit 76 0xF)) OR push_bit 76 0x4) AND NOT (push_bit 62 0x3))
       OR push_bit 62 0x2"

definition hexdigit :: "nat \<Rightarrow> char" where
  "hexdigit n = ''0123456789abcdef'' ! (n mod 16)"

definition hex_byte :: "8 word \<Rightarrow> string" where
  "hex_byte b = [hexdigit (unat b div 16), hexdigit (unat b mod 16)]"

definition uuid_bytes :: "uuid \<Rightarrow> 8 word list" where
  "uuid_bytes u = map (\<lambda>i. ucast (drop_bit (8 * (15 - i)) u)) [0..<16]"

definition uuid_String :: "uuid \<Rightarrow> string" where
  "uuid_String u =
     (let h = concat (map hex_byte (uuid_bytes u))
      in take 8 h @ ''-'' @ take 4 (drop 8 h) @ ''-'' @ take 4 (drop 12 h) @ ''-'' @
         take 4 (drop 16 h) @ ''-'' @ drop 20 h)"

subsection \<open>Time, open values, Go maps, errors\<close>

text \<open>A reading of \<^verbatim>\<open>time.Now().UTC()\<close>; every reading is an explicit argument.\<close>

type_synonym time = nat

text \<open>
  A value of type \<^verbatim>\<open>interface{}\<close> as it occurs in a metadata bag: nil, a boolean, a
  number, a string (any bytes), a slice, a map with string keys, or a value of a Go type
  that \<^verbatim>\<open>encoding/json\<close> does not support (a channel, a function, ...), kept with the
  name of its type. A Go map is its list of entries with distinct keys, in the order a
  \<^verbatim>\<open>range\<close> loop visits them; \<open>None\<close> is the nil map. Numbers are kept as integers:
  no operation looks inside them.
\<close>

datatype go_value =
    GoNil
  | GoBool bool
  | GoNumber int
  | GoString string
  | GoSlice "go_value list"
  | GoMap "(string \<times> go_value) list"
  | GoUnsupported string

type_synonym gomap = "(string \<times> go_value) list option"

fun entries :: "gomap \<Rightarrow> (string \<times> go_value) list" where
  "entries None = []"
| "entries (Some kvs) = kvs"

text \<open>
  The errors that occur: the two of the store contract, the broker library's
  closed-channel error (\<^verbatim>\<open>amqp.ErrClosed\<close>, code 504, whose text quotes the reason),
  \<^verbatim>\<open>json.UnsupportedTypeError\<close> with the name of the type, and \<^verbatim>\<open>fmt.Errorf\<close> with its
  formatted text.
\<close>

datatype error =
    DuplicateID
  | NotFound
  | ErrClosed
  | UnsupportedTypeError string
  | Errorf string

fun Error :: "error \<Rightarrow> string" where
  "Error DuplicateID = ''duplicate id''"
| "Error NotFound = ''record not found''"
| "Error ErrClosed =
     ''Exception (504) Reason: '' @ [CHR 0x22] @ ''channel/connection is not open'' @ [CHR 0x22]"
| "Error (UnsupportedTypeError ty) = ''json: unsupported type: '' @ ty"
| "Error (Errorf s) = s"

subsection \<open>JSON documents and \<^verbatim>\<open>encoding/json\<close>\<close>

text \<open>
  A JSON document, as a tree: what a reader of the encoded bytes gets back. The members
  of an object are in the order of the encoding.
\<close>

datatype json =
    JNull
  | JBool bool
  | JNumber int
  | JString string
  | JArray "json list"
  | JObject "(string \<times> json) list"

text \<open>
  The encoder copies the well-formed UTF-8 sequences of a Go string and writes U+FFFD
  (the bytes EF BF BD) for every byte that does not start one. \<open>rune_len\<close> is the length
  of the well-formed sequence at the head of the bytes, after the table of
  \<^verbatim>\<open>unicode/utf8\<close>, and 0 if there is none; \<open>json_string_from k\<close> copies \<open>k\<close> bytes of
  the current sequence before it looks for the next one.
\<close>

definition continuation_byte :: "nat \<Rightarrow> bool" where
  "continuation_byte b = (0x80 \<le> b \<and> b \<le> 0xBF)"

definition second_lo :: "nat \<Rightarrow> nat" where
  "second_lo b0 = (if b0 = 0xE0 then 0xA0 else if b0 = 0xF0 then 0x90 else 0x80)"

definition second_hi :: "nat \<Rightarrow> nat" where
  "second_hi b0 = (if b0 = 0xED then 0x9F else if b0 = 0xF4 then 0x8F else 0xBF)"

fun rune_len :: "nat list \<Rightarrow> nat" where
  "rune_len [] = 0"
| "rune_len (b0 # bs) =
     (if b0 < 0x80 then 1
      else if 0xC2 \<le> b0 \<and> b0 \<le> 0xDF then
        (case bs of
           b1 # _ \<Rightarrow> if continuation_byte b1 then 2 else 0
         | _ \<Rightarrow> 0)
      else if 0xE0 \<le> b0 \<and> b0 \<le> 0xEF then
        (case bs of
           b1 # b2 # _ \<Rightarrow>
             if second_lo b0 \<le> b1 \<and> b1 \<le> second_hi b0 \<and> continuation_byte b2 then 3 else 0
         | _ \<Rightarrow> 0)
      else if 0xF0 \<le> b0 \<and> b0 \<le> 0xF4 then
        (case bs of
           b1 # b2 # b3 # _ \<Rightarrow>
             if second_lo b0 \<le> b1 \<and> b1 \<le> second_hi b0 \<and> continuation_byte b2 \<and>
                continuation_byte b3
             then 4 else 0
         | _ \<Rightarrow> 0)
      else 0)"

fun json_string_from :: "nat \<Rightarrow> string \<Rightarrow> string" where
  "json_string_from k [] = []"
| "json_string_from k (c # cs) =
     (if 0 < k then c # json_string_from (k - 1) cs
      else
        (let n = rune_len (map of_char (c # cs))
         in if n = 0 then [CHR 0xEF, CHR 0xBF, CHR 0xBD] @ json_string_from 0 cs
            else c # json_string_from (n - 1) cs))"

definition json_string :: "string \<Rightarrow> string" where
  "json_string s = json_string_from 0 s"

text \<open>
  The encoder stops at the first value it cannot encode. It writes the elements of a
  slice in order and the entries of a map sorted by their keys (compared as byte
  strings); a key is encoded as a string is.
\<close>

fun collect_elements :: "(error + 'a) list \<Rightarrow> error + 'a list" where
  "collect_elements [] = Inr []"
| "collect_elements (r # rs) =
     (case r of
        Inl e \<Rightarrow> Inl e
      | Inr a \<Rightarrow>
          (case collect_elements rs of
             Inl e \<Rightarrow> Inl e
           | Inr as \<Rightarrow> Inr (a # as)))"

fun collect_members :: "(string \<times> (error + 'a)) list \<Rightarrow> error + (string \<times> 'a) list" where
  "collect_members [] = Inr []"
| "collect_members ((k, r) # rs) =
     (case r of
        Inl e \<Rightarrow> Inl e
      | Inr a \<Rightarrow>
          (case collect_members rs of
             Inl e \<Rightarrow> Inl e
           | Inr as \<Rightarrow> Inr ((k, a) # as)))"

definition marshal_elements :: "(error + json) list \<Rightarrow> error + json" where
  "marshal_elements rs =
     (case collect_elements rs of Inl e \<Rightarrow> Inl e | Inr js \<Rightarrow> Inr (JArray js))"

definition marshal_members :: "(string \<times> (error + json)) list \<Rightarrow> error + json" where
  "marshal_members ms =
     (case collect_members (sort_key fst ms) of
        Inl e \<Rightarrow> Inl e
      | Inr kvs \<Rightarrow> Inr (JObject (map (\<lambda>(k, j). (json_string k, j)) kvs)))"

primrec marshal_value :: "go_value \<Rightarrow> error + json" where
  "marshal_value GoNil = Inr JNull"
| "marshal_value (GoBool b) = Inr (JBool b)"
| "marshal_value (GoNumber n) = Inr (JNumber n)"
| "marshal_value (GoString s) = Inr (JString (json_string s))"
| "marshal_value (GoSlice vs) = marshal_elements (map marshal_value vs)"
| "marshal_value (GoMap kvs) = marshal_members (map (map_prod id marshal_value) kvs)"
| "marshal_value (GoUnsupported ty) = Inl (UnsupportedTypeError ty)"

fun marshal_map :: "gomap \<Rightarrow> error + json" where
  "marshal_map None = Inr JNull"
| "marshal_map (Some kvs) = marshal_value (GoMap kvs)"

datatype log_level = LevelInfo | LevelWarn | LevelError

text \<open>A record written to the \<^verbatim>\<open>slog.Logger\<close>: level, message, attributes.\<close>

type_synonym log_record = "log_level \<times> string \<times> (string \<times> string) list"

section \<open>The job entity\<close>

datatype ResumeJobStatus =
    ResumeJobStatusPending
  | ResumeJobStatusProcessing
  | ResumeJobStatusCompleted
  | ResumeJobStatusFailed
  | ResumeJobStatusCancelled

record ResumeGenerationJob =
  ID :: uuid
  UserID :: uuid
  JobDescription :: string
  Status :: ResumeJobStatus
  Metadata :: gomap
  ErrorMessage :: string
  ErrorCode :: string
  ResumeID :: "uuid option"
  CreatedAt :: time
  UpdatedAt :: time

text \<open>
  \<^verbatim>\<open>NewResumeGenerationJob\<close>: \<^verbatim>\<open>md := make(JSONMetadata); for k, v := range metadata
  { md[k] = v }\<close>, then the struct literal; the fields it does not name keep their zero
  values. \<open>rnd\<close> are the random bytes of \<^verbatim>\<open>uuid.New()\<close>, \<open>tc\<close> and \<open>tu\<close> the two clock
  readings.
\<close>

definition NewResumeGenerationJob ::
  "128 word \<Rightarrow> time \<Rightarrow> time \<Rightarrow> uuid \<Rightarrow> string \<Rightarrow> gomap \<Rightarrow> ResumeGenerationJob" where
  "NewResumeGenerationJob rnd tc tu userID jobDescription metadata =
     (let md = fold (\<lambda>(k, v) md. AList.update k v md) (entries metadata) []
      in \<lparr>ID = uuid_New rnd,
          UserID = userID,
          JobDescription = jobDescription,
          Status = ResumeJobStatusPending,
          Metadata = Some md,
          ErrorMessage = [],
          ErrorCode = [],
          ResumeID = None,
          CreatedAt = tc,
          UpdatedAt = tu\<rparr>)"

definition MarkProcessing :: "time \<Rightarrow> ResumeGenerationJob \<Rightarrow> ResumeGenerationJob" where
  "MarkProcessing now j = j\<lparr>Status := ResumeJobStatusProcessing, UpdatedAt := now\<rparr>"

definition MarkCompleted :: "time \<Rightarrow> uuid \<Rightarrow> ResumeGenerationJob \<Rightarrow> ResumeGenerationJob" where
  "MarkCompleted now resumeID j =
     j\<lparr>Status := ResumeJobStatusCompleted,
       ResumeID := Some resumeID,
       ErrorMessage := [],
       ErrorCode := [],
       UpdatedAt := now\<rparr>"

definition MarkFailed ::
  "time \<Rightarrow> string \<Rightarrow> string \<Rightarrow> ResumeGenerationJob \<Rightarrow> ResumeGenerationJob" where
  "MarkFailed now errorMessage errorCode j =
     j\<lparr>Status := ResumeJobStatusFailed,
       ErrorMessage := errorMessage,
       ErrorCode := errorCode,
       UpdatedAt := now\<rparr>"

definition MarkCancelled :: "time \<Rightarrow> ResumeGenerationJob \<Rightarrow> ResumeGenerationJob" where
  "MarkCancelled now j = j\<lparr>Status := ResumeJobStatusCancelled, UpdatedAt := now\<rparr>"

section \<open>The publisher\<close>

text \<open>
  \<^verbatim>\<open>ResumeWorkerJob\<close> is the message handed to the publisher. Its Go fields are
  \<^verbatim>\<open>JobID\<close>, \<^verbatim>\<open>UserID\<close>, \<^verbatim>\<open>JobDescription\<close>, \<^verbatim>\<open>Metadata\<close>; the last three carry the
  prefix \<open>Worker\<close> here because the job entity has fields of the same names.
\<close>

record ResumeWorkerJob =
  JobID :: string
  WorkerUserID :: string
  WorkerJobDescription :: string
  WorkerMetadata :: gomap

definition resumeExchange :: string where
  "resumeExchange = ''woragis.tasks''"

definition resumeQueue :: string where
  "resumeQueue = ''resumes.queue''"

definition resumeRoutingKey :: string where
  "resumeRoutingKey = ''resumes.generate''"

text \<open>
  \<^verbatim>\<open>json.Marshal\<close> of a \<^verbatim>\<open>ResumeWorkerJob\<close>: one member per struct field, in field
  order, named by the field's \<^verbatim>\<open>json\<close> tag; the three strings are encoded as strings
  are, a nil map is \<^verbatim>\<open>null\<close>, any other map an object. It fails when the metadata
  holds a value that cannot be encoded.
\<close>

definition json_Marshal :: "ResumeWorkerJob \<Rightarrow> error + json" where
  "json_Marshal job =
     (case marshal_map (WorkerMetadata job) of
        Inl err \<Rightarrow> Inl err
      | Inr md \<Rightarrow>
          Inr (JObject
                 [(''jobId'', JString (json_string (JobID job))),
                  (''userId'', JString (json_string (WorkerUserID job))),
                  (''jobDescription'', JString (json_string (WorkerJobDescription job))),
                  (''metadata'', md)]))"

text \<open>
  The broker client (\<^verbatim>\<open>amqp091-go\<close>): a message with its content type, body and
  delivery mode (2 is \<^verbatim>\<open>amqp.Persistent\<close>), and a channel that hands every message it
  accepts to the broker, together with exchange, routing key and the two flags, and
  refuses with \<^verbatim>\<open>ErrClosed\<close> once it is closed.
\<close>

record amqp_Publishing =
  ContentType :: string
  Body :: json
  DeliveryMode :: nat

definition amqp_Persistent :: nat where
  "amqp_Persistent = 2"

record amqp_Channel =
  is_closed :: bool
  accepted :: "(string \<times> string \<times> bool \<times> bool \<times> amqp_Publishing) list"

definition PublishWithContext ::
  "amqp_Channel \<Rightarrow> string \<Rightarrow> string \<Rightarrow> bool \<Rightarrow> bool \<Rightarrow> amqp_Publishing
     \<Rightarrow> error option \<times> amqp_Channel" where
  "PublishWithContext ch exchange key mandatory immediate msg =
     (if is_closed ch then (Some ErrClosed, ch)
      else (None, ch\<lparr>accepted := accepted ch @ [(exchange, key, mandatory, immediate, msg)]\<rparr>))"

text \<open>
  The interface \<^verbatim>\<open>RabbitMQPublisher\<close>, method \<^verbatim>\<open>PublishResumeGenerationJob\<close>: from the
  channel's state and the message to the returned error, the channel's new state and the
  log records written.
\<close>

type_synonym RabbitMQPublisher =
  "amqp_Channel \<Rightarrow> ResumeWorkerJob \<Rightarrow> error option \<times> amqp_Channel \<times> log_record list"

text \<open>
  \<^verbatim>\<open>(*rabbitMQPublisher).PublishResumeGenerationJob\<close>; \<open>channel_nil\<close> says that the
  struct's \<^verbatim>\<open>channel\<close> pointer is nil.
\<close>

definition rabbitMQPublisher_PublishResumeGenerationJob :: "bool \<Rightarrow> RabbitMQPublisher" where
  "rabbitMQPublisher_PublishResumeGenerationJob channel_nil ch job =
     (if channel_nil then (Some (Errorf ''channel is not available''), ch, [])
      else
        (case json_Marshal job of
           Inl err \<Rightarrow> (Some (Errorf (''failed to marshal job: '' @ Error err)), ch, [])
         | Inr body \<Rightarrow>
             (case PublishWithContext ch resumeExchange resumeRoutingKey False False
                     \<lparr>ContentType = ''application/json'', Body = body,
                      DeliveryMode = amqp_Persistent\<rparr> of
                (Some err, ch') \<Rightarrow>
                  (Some (Errorf (''failed to publish job: '' @ Error err)), ch',
                   [(LevelError, ''failed to publish job'',
                     [(''jobId'', JobID job), (''error'', Error err)])])
              | (None, ch') \<Rightarrow>
                  (None, ch',
                   [(LevelInfo, ''resume generation job published'',
                     [(''jobId'', JobID job), (''userId'', WorkerUserID job)])]))))"

text \<open>\<^verbatim>\<open>(*noOpPublisher).PublishResumeGenerationJob\<close>.\<close>

definition noOpPublisher_PublishResumeGenerationJob :: RabbitMQPublisher where
  "noOpPublisher_PublishResumeGenerationJob ch job =
     (None, ch,
      [(LevelWarn, ''RabbitMQ publisher is not available, job will not be queued'',
        [(''jobId'', JobID job), (''userId'', WorkerUserID job)])])"

section \<open>The job store\<close>

text \<open>
  The table \<^verbatim>\<open>resume_jobs\<close> is the list of its rows. The interface \<^verbatim>\<open>Repository\<close> is
  known from the service's calls: create, get by job id, update. Each method maps the
  table (and its argument) to its result; the two writing methods also return the table
  they leave behind.
\<close>

type_synonym resume_jobs_table = "ResumeGenerationJob list"

record Repository =
  repo_CreateResumeGenerationJob ::
    "resume_jobs_table \<Rightarrow> ResumeGenerationJob \<Rightarrow> error option \<times> resume_jobs_table"
  repo_GetResumeGenerationJob ::
    "resume_jobs_table \<Rightarrow> uuid \<Rightarrow> error + ResumeGenerationJob"
  repo_UpdateResumeGenerationJob ::
    "resume_jobs_table \<Rightarrow> ResumeGenerationJob \<Rightarrow> error option \<times> resume_jobs_table"

text \<open>
  Modelled from the spec: the table behind the contract of section 4.1 is not among the
  sources. The row with a given id, if any; ids are unique, as \<^verbatim>\<open>Create\<close> keeps them.
\<close>

definition lookup_job :: "resume_jobs_table \<Rightarrow> uuid \<Rightarrow> ResumeGenerationJob option" where
  "lookup_job tbl jobID = find (\<lambda>r. ID r = jobID) tbl"

text \<open>
  Modelled from the spec: the implementation of \<^verbatim>\<open>Repository\<close> (\<^verbatim>\<open>gormRepository\<close>, file
  \<^verbatim>\<open>repository.go\<close>) is not among the sources. Section 4.1 of the specification gives
  its contract: \<^verbatim>\<open>Create\<close> persists a new job and fails with \<^verbatim>\<open>DuplicateID\<close> if the id
  already exists; \<^verbatim>\<open>Update\<close> is a full-record replace and fails with \<^verbatim>\<open>NotFound\<close> if
  the id is unknown; \<^verbatim>\<open>Get\<close> fails with \<^verbatim>\<open>NotFound\<close> if the job is absent. The service
  calls \<^verbatim>\<open>GetResumeGenerationJob(ctx, jobID)\<close> with the job id alone, so the lookup is by
  id only.
\<close>

definition gorm_CreateResumeGenerationJob ::
  "resume_jobs_table \<Rightarrow> ResumeGenerationJob \<Rightarrow> error option \<times> resume_jobs_table" where
  "gorm_CreateResumeGenerationJob tbl job =
     (case lookup_job tbl (ID job) of
        Some r \<Rightarrow> (Some DuplicateID, tbl)
      | None \<Rightarrow> (None, tbl @ [job]))"

text \<open>
  Modelled from the spec: \<^verbatim>\<open>GetResumeGenerationJob\<close> of the absent \<^verbatim>\<open>gormRepository\<close>;
  section 4.1, \<^verbatim>\<open>Get\<close> fails with \<^verbatim>\<open>NotFound\<close> if the job is absent.
\<close>

definition gorm_GetResumeGenerationJob ::
  "resume_jobs_table \<Rightarrow> uuid \<Rightarrow> error + ResumeGenerationJob" where
  "gorm_GetResumeGenerationJob tbl jobID =
     (case lookup_job tbl jobID of
        None \<Rightarrow> Inl NotFound
      | Some r \<Rightarrow> Inr r)"

text \<open>
  Modelled from the spec: \<^verbatim>\<open>UpdateResumeGenerationJob\<close> of the absent \<^verbatim>\<open>gormRepository\<close>;
  section 4.1, \<^verbatim>\<open>Update\<close> is a full-record replace and fails with \<^verbatim>\<open>NotFound\<close> if the id is
  unknown.
\<close>

definition gorm_UpdateResumeGenerationJob ::
  "resume_jobs_table \<Rightarrow> ResumeGenerationJob \<Rightarrow> error option \<times> resume_jobs_table" where
  "gorm_UpdateResumeGenerationJob tbl job =
     (case lookup_job tbl (ID job) of
        None \<Rightarrow> (Some NotFound, tbl)
      | Some r \<Rightarrow> (None, map (\<lambda>r. if ID r = ID job then job else r) tbl))"

text \<open>
  Modelled from the spec: the absent \<^verbatim>\<open>gormRepository\<close> as a value of the interface, made
  of the three methods above.
\<close>

definition gormRepository :: Repository where
  "gormRepository =
     \<lparr>repo_CreateResumeGenerationJob = gorm_CreateResumeGenerationJob,
      repo_GetResumeGenerationJob = gorm_GetResumeGenerationJob,
      repo_UpdateResumeGenerationJob = gorm_UpdateResumeGenerationJob\<rparr>"

section \<open>The service\<close>

text \<open>
  Everything outside the service that its methods read or change: the job table, the
  broker channel, and what has been logged. The \<^verbatim>\<open>context.Context\<close> argument of the
  methods is left out; a cancelled context shows as the failure of a store or broker call.
\<close>

record world =
  resume_jobs :: resume_jobs_table
  channel :: amqp_Channel
  logs :: "log_record list"

record service =
  repo :: Repository
  rabbitMQPublisher :: RabbitMQPublisher

text \<open>
  \<^verbatim>\<open>GenerateResume\<close>. \<open>rnd\<close>, \<open>tc\<close>, \<open>tu\<close> are what \<^verbatim>\<open>NewResumeGenerationJob\<close> draws; \<open>tf\<close> is
  the clock reading of \<^verbatim>\<open>MarkFailed\<close>. The error of the update after a failed publish is
  discarded (\<^verbatim>\<open>_ = s.repo.UpdateResumeGenerationJob(ctx, job)\<close>).
\<close>

definition GenerateResume ::
  "service \<Rightarrow> world \<Rightarrow> 128 word \<Rightarrow> time \<Rightarrow> time \<Rightarrow> time \<Rightarrow> uuid \<Rightarrow> string \<Rightarrow> gomap
     \<Rightarrow> (uuid \<times> error option) \<times> world" where
  "GenerateResume s w rnd tc tu tf userID jobDescription metadata =
     (let job = NewResumeGenerationJob rnd tc tu userID jobDescription metadata
      in case repo_CreateResumeGenerationJob (repo s) (resume_jobs w) job of
           (Some err, tbl) \<Rightarrow>
             ((uuid_Nil, Some err),
              w\<lparr>resume_jobs := tbl,
                logs := logs w @
                  [(LevelError, ''failed to create resume generation job'',
                    [(''error'', Error err), (''userId'', uuid_String userID)])]\<rparr>)
         | (None, tbl) \<Rightarrow>
             (let workerJob =
                    \<lparr>JobID = uuid_String (ID job),
                     WorkerUserID = uuid_String (UserID job),
                     WorkerJobDescription = JobDescription job,
                     WorkerMetadata = Metadata job\<rparr>
              in case rabbitMQPublisher s (channel w) workerJob of
                   (Some err, ch, published) \<Rightarrow>
                     (let failed = MarkFailed tf ''Failed to queue job for processing''
                                      ''QUEUE_ERROR'' job;
                          tbl' = snd (repo_UpdateResumeGenerationJob (repo s) tbl failed)
                      in ((uuid_Nil, Some err),
                          w\<lparr>resume_jobs := tbl',
                            channel := ch,
                            logs := logs w @ published @
                              [(LevelError, ''failed to publish resume generation job'',
                                [(''error'', Error err),
                                 (''jobId'', uuid_String (ID job))])]\<rparr>))
                 | (None, ch, published) \<Rightarrow>
                     ((ID job, None),
                      w\<lparr>resume_jobs := tbl,
                        channel := ch,
                        logs := logs w @ published @
                          [(LevelInfo, ''resume generation job created and queued'',
                            [(''jobId'', uuid_String (ID job)),
                             (''userId'', uuid_String userID)])]\<rparr>)))"

text \<open>\<^verbatim>\<open>GetResumeGenerationJobStatus\<close>: the job id is its only argument.\<close>

definition GetResumeGenerationJobStatus ::
  "service \<Rightarrow> world \<Rightarrow> uuid \<Rightarrow> (error + ResumeGenerationJob) \<times> world" where
  "GetResumeGenerationJobStatus s w jobID =
     (case repo_GetResumeGenerationJob (repo s) (resume_jobs w) jobID of
        Inl err \<Rightarrow>
          (Inl err,
           w\<lparr>logs := logs w @
               [(LevelError, ''failed to get resume generation job status'',
                 [(''error'', Error err), (''jobId'', uuid_String jobID)])]\<rparr>)
      | Inr job \<Rightarrow> (Inr job, w))"

text \<open>\<^verbatim>\<open>CompleteResumeGeneration\<close>; \<open>now\<close> is the clock reading of \<^verbatim>\<open>MarkCompleted\<close>.\<close>

definition CompleteResumeGeneration ::
  "service \<Rightarrow> world \<Rightarrow> time \<Rightarrow> uuid \<Rightarrow> uuid \<Rightarrow> error option \<times> world" where
  "CompleteResumeGeneration s w now jobID resumeID =
     (case repo_GetResumeGenerationJob (repo s) (resume_jobs w) jobID of
        Inl err \<Rightarrow>
          (Some err,
           w\<lparr>logs := logs w @
               [(LevelError, ''failed to get resume generation job'',
                 [(''error'', Error err), (''jobId'', uuid_String jobID)])]\<rparr>)
      | Inr job \<Rightarrow>
          (let completed = MarkCompleted now resumeID job
           in case repo_UpdateResumeGenerationJob (repo s) (resume_jobs w) completed of
                (Some err, tbl) \<Rightarrow>
                  (Some err,
                   w\<lparr>resume_jobs := tbl,
                     logs := logs w @
                       [(LevelError, ''failed to update resume generation job'',
                         [(''error'', Error err), (''jobId'', uuid_String jobID)])]\<rparr>)
              | (None, tbl) \<Rightarrow>
                  (None,
                   w\<lparr>resume_jobs := tbl,
                     logs := logs w @
                       [(LevelInfo, ''resume generation job completed'',
                         [(''jobId'', uuid_String jobID),
                          (''resumeId'', uuid_String resumeID)])]\<rparr>)))"

text \<open>
  \<^verbatim>\<open>FailResumeGeneration\<close>: the worker passes a message and no code; the code recorded
  is always \<^verbatim>\<open>GENERATION_ERROR\<close>.
\<close>

definition FailResumeGeneration ::
  "service \<Rightarrow> world \<Rightarrow> time \<Rightarrow> uuid \<Rightarrow> string \<Rightarrow> error option \<times> world" where
  "FailResumeGeneration s w now jobID errorMessage =
     (case repo_GetResumeGenerationJob (repo s) (resume_jobs w) jobID of
        Inl err \<Rightarrow>
          (Some err,
           w\<lparr>logs := logs w @
               [(LevelError, ''failed to get resume generation job'',
                 [(''error'', Error err), (''jobId'', uuid_String jobID)])]\<rparr>)
      | Inr job \<Rightarrow>
          (let failed = MarkFailed now errorMessage ''GENERATION_ERROR'' job
           in case repo_UpdateResumeGenerationJob (repo s) (resume_jobs w) failed of
                (Some err, tbl) \<Rightarrow>
                  (Some err,
                   w\<lparr>resume_jobs := tbl,
                     logs := logs w @
                       [(LevelError, ''failed to update resume generation job'',
                         [(''error'', Error err), (''jobId'', uuid_String jobID)])]\<rparr>)
              | (None, tbl) \<Rightarrow>
                  (None,
                   w\<lparr>resume_jobs := tbl,
                     logs := logs w @
                       [(LevelInfo, ''resume generation job failed'',
                         [(''jobId'', uuid_String jobID), (''error'', errorMessage)])]\<rparr>)))"

section \<open>Terminal states, result and error fields, sequences of operations\<close>

fun terminal :: "ResumeJobStatus \<Rightarrow> bool" where
  "terminal ResumeJobStatusPending = False"
| "terminal ResumeJobStatusProcessing = False"
| "terminal ResumeJobStatusCompleted = True"
| "terminal ResumeJobStatusFailed = True"
| "terminal ResumeJobStatusCancelled = True"









text \<open>The member names of a JSON object, in order.\<close>

fun member_names :: "json \<Rightarrow> string list" where
  "member_names (JObject kvs) = map fst kvs"
| "member_names _ = []"

section \<open>The scenario of the specification\<close>

text \<open>
  An empty table, an open channel, nothing logged; the metadata bag \<^verbatim>\<open>{lang: "en"}\<close>;
  the job \<open>J1\<close> that user 1 submits with the description \<^verbatim>\<open>Senior Go Engineer\<close> when
  the random bytes are all zero; a world whose table holds \<open>J1\<close>.
\<close>

definition scenario_world :: world where
  "scenario_world =
     \<lparr>resume_jobs = [], channel = \<lparr>is_closed = False, accepted = []\<rparr>, logs = []\<rparr>"

definition scenario_metadata :: gomap where
  "scenario_metadata = Some [(''lang'', GoString ''en'')]"

definition J1 :: ResumeGenerationJob where
  "J1 = NewResumeGenerationJob 0 10 10 1 ''Senior Go Engineer'' scenario_metadata"

definition world_with_J1 :: world where
  "world_with_J1 = scenario_world\<lparr>resume_jobs := [J1]\<rparr>"

text \<open>The broker is down: the channel is closed. And a world whose job is completed.\<close>

definition broker_down_world :: world where
  "broker_down_world = scenario_world\<lparr>channel := \<lparr>is_closed = True, accepted = []\<rparr>\<rparr>"

definition completed_world :: world where
  "completed_world = scenario_world\<lparr>resume_jobs := [MarkCompleted 20 77 J1]\<rparr>"

section \<open>Lemmas about the model\<close>

lemma uuid_New_not_Nil: "uuid_New rnd \<noteq> uuid_Nil"
proof
  assume "uuid_New rnd = uuid_Nil"
  then have "bit (uuid_New rnd) 78 = bit (0 :: 128 word) 78"
    by (simp add: uuid_Nil_def)
  then show False
    by (simp add: uuid_New_def bit_simps)
qed

text \<open>The reference store: rows are found by their id, appended, replaced.\<close>

lemma lookup_job_ID: "lookup_job tbl jobID = Some r \<Longrightarrow> ID r = jobID"
  by (auto simp: lookup_job_def find_Some_iff)

lemma lookup_job_append:
  "lookup_job (tbl @ [job]) jobID =
     (case lookup_job tbl jobID of
        Some r \<Rightarrow> Some r
      | None \<Rightarrow> if ID job = jobID then Some job else None)"
  by (induction tbl) (auto simp: lookup_job_def)

lemma lookup_job_replace:
  "ID job = k \<Longrightarrow>
   lookup_job (map (\<lambda>r. if ID r = k then job else r) tbl) jobID =
     (case lookup_job tbl jobID of
        None \<Rightarrow> None
      | Some r \<Rightarrow> if jobID = k then Some job else Some r)"
  by (induction tbl) (auto simp: lookup_job_def)

text \<open>The \<^verbatim>\<open>range\<close> loop of \<^verbatim>\<open>NewResumeGenerationJob\<close> copies a map entry by entry.\<close>

lemma update_fresh_key:
  "k \<notin> fst ` set al \<Longrightarrow> AList.update k v al = al @ [(k, v)]"
  by (induction al) auto

lemma range_copy:
  "distinct (map fst (acc @ kvs)) \<Longrightarrow>
   fold (\<lambda>(k, v) md. AList.update k v md) kvs acc = acc @ kvs"
proof (induction kvs arbitrary: acc)
  case Nil
  then show ?case by simp
next
  case (Cons kv kvs)
  obtain k v where kv: "kv = (k, v)" by (cases kv)
  from Cons.prems kv have fresh: "k \<notin> fst ` set acc" by auto
  from Cons.prems kv have "distinct (map fst ((acc @ [(k, v)]) @ kvs))" by auto
  from Cons.IH [OF this] fresh kv show ?case
    by (simp add: update_fresh_key)
qed

lemma NewResumeGenerationJob_fields:
  "ID (NewResumeGenerationJob rnd tc tu userID jobDescription metadata) = uuid_New rnd"
  "UserID (NewResumeGenerationJob rnd tc tu userID jobDescription metadata) = userID"
  "JobDescription (NewResumeGenerationJob rnd tc tu userID jobDescription metadata) =
     jobDescription"
  "Status (NewResumeGenerationJob rnd tc tu userID jobDescription metadata) =
     ResumeJobStatusPending"
  "ErrorMessage (NewResumeGenerationJob rnd tc tu userID jobDescription metadata) = []"
  "ErrorCode (NewResumeGenerationJob rnd tc tu userID jobDescription metadata) = []"
  "ResumeID (NewResumeGenerationJob rnd tc tu userID jobDescription metadata) = None"
  "CreatedAt (NewResumeGenerationJob rnd tc tu userID jobDescription metadata) = tc"
  "UpdatedAt (NewResumeGenerationJob rnd tc tu userID jobDescription metadata) = tu"
  by (simp_all add: NewResumeGenerationJob_def Let_def)

lemma NewResumeGenerationJob_Metadata:
  "distinct (map fst (entries metadata)) \<Longrightarrow>
   Metadata (NewResumeGenerationJob rnd tc tu userID jobDescription metadata) =
     Some (entries metadata)"
  using range_copy [of "[]" "entries metadata"]
  by (simp add: NewResumeGenerationJob_def Let_def)

lemma gormRepository_simps:
  "repo_CreateResumeGenerationJob gormRepository = gorm_CreateResumeGenerationJob"
  "repo_GetResumeGenerationJob gormRepository = gorm_GetResumeGenerationJob"
  "repo_UpdateResumeGenerationJob gormRepository = gorm_UpdateResumeGenerationJob"
  by (simp_all add: gormRepository_def)

lemma Mark_ID:
  "ID (MarkProcessing now j) = ID j"
  "ID (MarkCompleted now resumeID j) = ID j"
  "ID (MarkFailed now errorMessage errorCode j) = ID j"
  "ID (MarkCancelled now j) = ID j"
  by (simp_all add: MarkProcessing_def MarkCompleted_def MarkFailed_def MarkCancelled_def)

lemma gorm_Update_stored:
  assumes "lookup_job tbl jobID = Some job" and "ID job' = ID job"
  shows "\<exists>tbl'. gorm_UpdateResumeGenerationJob tbl job' = (None, tbl') \<and>
           lookup_job tbl' jobID = Some job'"
proof -
  from assms(1) have id: "ID job = jobID" by (rule lookup_job_ID)
  with assms show ?thesis
    by (simp add: gorm_UpdateResumeGenerationJob_def lookup_job_replace)
qed

text \<open>A submission that the reference store accepts and whose publish succeeds.\<close>

lemma GenerateResume_published:
  assumes fresh: "lookup_job (resume_jobs w) (uuid_New rnd) = None"
    and pub: "fst (P (channel w) m) = None"
    and m: "m = \<lparr>JobID = uuid_String (uuid_New rnd), WorkerUserID = uuid_String userID,
              WorkerJobDescription = jobDescription,
              WorkerMetadata =
                Metadata (NewResumeGenerationJob rnd tc tu userID jobDescription metadata)\<rparr>"
  shows "GenerateResume \<lparr>repo = gormRepository, rabbitMQPublisher = P\<rparr> w rnd tc tu tf
           userID jobDescription metadata =
         ((uuid_New rnd, None),
          w\<lparr>resume_jobs := resume_jobs w @
               [NewResumeGenerationJob rnd tc tu userID jobDescription metadata],
            channel := fst (snd (P (channel w) m)),
            logs := logs w @ snd (snd (P (channel w) m)) @
              [(LevelInfo, ''resume generation job created and queued'',
                [(''jobId'', uuid_String (uuid_New rnd)), (''userId'', uuid_String userID)])]\<rparr>)"
proof -
  obtain e ch lg where P: "P (channel w) m = (e, ch, lg)"
    by (cases "P (channel w) m") auto
  with pub have e: "e = None" by simp
  show ?thesis
    using fresh P e m
    by (simp add: GenerateResume_def Let_def gormRepository_simps
        gorm_CreateResumeGenerationJob_def NewResumeGenerationJob_fields)
qed

text \<open>
  A submission whose job the store accepts and whose publish fails, for any store and any
  publisher; and the id returned with an error.
\<close>

lemma GenerateResume_publish_failed:
  assumes create: "repo_CreateResumeGenerationJob (repo s) (resume_jobs w)
                     (NewResumeGenerationJob rnd tc tu userID jobDescription metadata) = (None, tbl)"
    and pub: "rabbitMQPublisher s (channel w)
                \<lparr>JobID = uuid_String (uuid_New rnd), WorkerUserID = uuid_String userID,
                 WorkerJobDescription = jobDescription,
                 WorkerMetadata =
                   Metadata (NewResumeGenerationJob rnd tc tu userID jobDescription metadata)\<rparr> =
              (Some err, ch, published)"
  shows "GenerateResume s w rnd tc tu tf userID jobDescription metadata =
         ((uuid_Nil, Some err),
          w\<lparr>resume_jobs :=
              snd (repo_UpdateResumeGenerationJob (repo s) tbl
                     (MarkFailed tf ''Failed to queue job for processing'' ''QUEUE_ERROR''
                        (NewResumeGenerationJob rnd tc tu userID jobDescription metadata))),
            channel := ch,
            logs := logs w @ published @
              [(LevelError, ''failed to publish resume generation job'',
                [(''error'', Error err), (''jobId'', uuid_String (uuid_New rnd))])]\<rparr>)"
  using create pub
  by (simp add: GenerateResume_def Let_def NewResumeGenerationJob_fields)

lemma GenerateResume_error_Nil:
  "snd (fst (GenerateResume s w rnd tc tu tf userID jobDescription metadata)) \<noteq> None \<Longrightarrow>
   fst (fst (GenerateResume s w rnd tc tu tf userID jobDescription metadata)) = uuid_Nil"
  by (auto simp: GenerateResume_def Let_def split: prod.splits option.splits)

text \<open>
  The one message a submission hands to its publisher; a submission through the no-op
  publisher; the status query.
\<close>

lemma GenerateResume_message:
  assumes keys: "distinct (map fst (entries metadata))"
  shows "GenerateResume s w rnd tc tu tf userID jobDescription metadata =
         GenerateResume
           (s\<lparr>rabbitMQPublisher :=
                (\<lambda>ch m. rabbitMQPublisher s ch
                   \<lparr>JobID = uuid_String (uuid_New rnd), WorkerUserID = uuid_String userID,
                    WorkerJobDescription = jobDescription,
                    WorkerMetadata = Some (entries metadata)\<rparr>)\<rparr>)
           w rnd tc tu tf userID jobDescription metadata"
  using NewResumeGenerationJob_Metadata [OF keys, of rnd tc tu userID jobDescription]
  by (simp add: GenerateResume_def Let_def NewResumeGenerationJob_fields
      split: prod.splits option.splits)

lemma GenerateResume_noOp_error:
  "snd (fst (GenerateResume
               \<lparr>repo = R, rabbitMQPublisher = noOpPublisher_PublishResumeGenerationJob\<rparr>
               w rnd tc tu tf userID jobDescription metadata)) =
     fst (repo_CreateResumeGenerationJob R (resume_jobs w)
            (NewResumeGenerationJob rnd tc tu userID jobDescription metadata))"
  by (simp add: GenerateResume_def Let_def noOpPublisher_PublishResumeGenerationJob_def
      split: prod.splits option.splits)

lemma GenerateResume_noOp_channel:
  "channel (snd (GenerateResume
               \<lparr>repo = R, rabbitMQPublisher = noOpPublisher_PublishResumeGenerationJob\<rparr>
               w rnd tc tu tf userID jobDescription metadata)) = channel w"
  by (simp add: GenerateResume_def Let_def noOpPublisher_PublishResumeGenerationJob_def
      split: prod.splits option.splits)

lemma GetStatus_is_repo_Get:
  "fst (GetResumeGenerationJobStatus s w jobID) =
     repo_GetResumeGenerationJob (repo s) (resume_jobs w) jobID"
  by (simp add: GetResumeGenerationJobStatus_def split: sum.splits)

text \<open>
  Strings of ASCII bytes are encoded as they are, and the string form of a UUID is one;
  a byte that starts no UTF-8 sequence becomes U+FFFD; map entries come out sorted by
  key; a value of an unsupported type stops the encoder.
\<close>

lemma json_string_ascii:
  "\<forall>c\<in>set s. of_char c < (0x80 :: nat) \<Longrightarrow> json_string s = s"
  unfolding json_string_def by (induction s) (simp_all add: Let_def)

lemma hexdigit_ascii: "of_char (hexdigit n) < (0x80 :: nat)"
proof -
  have "n mod 16 < length ''0123456789abcdef''" by simp
  then have "hexdigit n \<in> set ''0123456789abcdef''"
    unfolding hexdigit_def by (rule nth_mem)
  moreover have "\<forall>c\<in>set ''0123456789abcdef''. of_char c < (0x80 :: nat)"
    by simp
  ultimately show ?thesis by blast
qed

lemma uuid_String_ascii: "\<forall>c\<in>set (uuid_String u). of_char c < (0x80 :: nat)"
proof -
  have hex: "\<forall>c\<in>set (concat (map hex_byte (uuid_bytes u))). of_char c < (0x80 :: nat)"
    by (auto simp: hex_byte_def hexdigit_ascii)
  show ?thesis
    unfolding uuid_String_def Let_def
    using hex by (auto dest!: in_set_takeD in_set_dropD)
qed

lemma json_string_uuid: "json_string (uuid_String u) = uuid_String u"
  by (rule json_string_ascii [OF uuid_String_ascii])

lemma json_string_invalid_byte:
  "json_string [CHR 0xFF, CHR ''a''] = [CHR 0xEF, CHR 0xBF, CHR 0xBD, CHR ''a'']"
  by (simp add: json_string_def)

lemma marshal_map_sorted:
  "marshal_map (Some [(''b'', GoBool True), (''a'', GoNil)]) =
     Inr (JObject [(''a'', JNull), (''b'', JBool True)])"
  by (simp add: marshal_members_def json_string_ascii)

lemma marshal_map_unsupported:
  "marshal_map (Some [(''done'', GoUnsupported ''chan int'')]) =
     Inl (UnsupportedTypeError ''chan int'')"
  by (simp add: marshal_members_def)

lemma json_Marshal_message:
  "json_Marshal
     \<lparr>JobID = uuid_String jobID, WorkerUserID = uuid_String userID,
      WorkerJobDescription = jobDescription, WorkerMetadata = metadata\<rparr> =
   (case marshal_map metadata of
      Inl err \<Rightarrow> Inl err
    | Inr md \<Rightarrow>
        Inr (JObject
               [(''jobId'', JString (uuid_String jobID)),
                (''userId'', JString (uuid_String userID)),
                (''jobDescription'', JString (json_string jobDescription)),
                (''metadata'', md)]))"
  by (simp add: json_Marshal_def json_string_uuid split: sum.splits)

text \<open>
  The broker-backed publisher on an open channel, on a closed channel, and with a
  message that cannot be marshalled.
\<close>

lemma open_channel_publish:
  "\<not> is_closed ch \<Longrightarrow> json_Marshal m = Inr body \<Longrightarrow>
   rabbitMQPublisher_PublishResumeGenerationJob False ch m =
     (None,
      ch\<lparr>accepted := accepted ch @
          [(resumeExchange, resumeRoutingKey, False, False,
            \<lparr>ContentType = ''application/json'', Body = body,
             DeliveryMode = amqp_Persistent\<rparr>)]\<rparr>,
      [(LevelInfo, ''resume generation job published'',
        [(''jobId'', JobID m), (''userId'', WorkerUserID m)])])"
  by (simp add: rabbitMQPublisher_PublishResumeGenerationJob_def PublishWithContext_def)

lemma closed_channel_publish:
  "is_closed ch \<Longrightarrow> json_Marshal m = Inr body \<Longrightarrow>
   rabbitMQPublisher_PublishResumeGenerationJob False ch m =
     (Some (Errorf (''failed to publish job: '' @ Error ErrClosed)), ch,
      [(LevelError, ''failed to publish job'',
        [(''jobId'', JobID m), (''error'', Error ErrClosed)])])"
  by (simp add: rabbitMQPublisher_PublishResumeGenerationJob_def PublishWithContext_def)

lemma unsupported_publish:
  "json_Marshal m = Inl err \<Longrightarrow>
   rabbitMQPublisher_PublishResumeGenerationJob False ch m =
     (Some (Errorf (''failed to marshal job: '' @ Error err)), ch, [])"
  by (simp add: rabbitMQPublisher_PublishResumeGenerationJob_def)

text \<open>
  A submission that the reference store accepts and whose publish fails: the update
  replaces the row just created.
\<close>

lemma map_replace_absent:
  "lookup_job tbl k = None \<Longrightarrow> map (\<lambda>r. if ID r = k then job else r) tbl = tbl"
  by (induction tbl) (auto simp: lookup_job_def split: if_splits)

lemma filter_absent: "lookup_job tbl k = None \<Longrightarrow> filter (\<lambda>r. ID r = k) tbl = []"
  by (induction tbl) (auto simp: lookup_job_def split: if_splits)

lemma gorm_Create_fresh:
  "fst (gorm_CreateResumeGenerationJob tbl job) = None \<longleftrightarrow> lookup_job tbl (ID job) = None"
  by (simp add: gorm_CreateResumeGenerationJob_def split: option.splits)

lemma GenerateResume_gorm_publish_failed:
  assumes create: "fst (repo_CreateResumeGenerationJob gormRepository (resume_jobs w)
                          (NewResumeGenerationJob rnd tc tu userID jobDescription metadata)) =
                   None"
    and pub: "P (channel w)
                \<lparr>JobID = uuid_String (uuid_New rnd), WorkerUserID = uuid_String userID,
                 WorkerJobDescription = jobDescription,
                 WorkerMetadata =
                   Metadata (NewResumeGenerationJob rnd tc tu userID jobDescription metadata)\<rparr> =
              (Some err, ch, published)"
  shows "GenerateResume \<lparr>repo = gormRepository, rabbitMQPublisher = P\<rparr> w rnd tc tu tf
           userID jobDescription metadata =
         ((uuid_Nil, Some err),
          w\<lparr>resume_jobs := resume_jobs w @
               [MarkFailed tf ''Failed to queue job for processing'' ''QUEUE_ERROR''
                  (NewResumeGenerationJob rnd tc tu userID jobDescription metadata)],
            channel := ch,
            logs := logs w @ published @
              [(LevelError, ''failed to publish resume generation job'',
                [(''error'', Error err), (''jobId'', uuid_String (uuid_New rnd))])]\<rparr>)"
proof -
  let ?job = "NewResumeGenerationJob rnd tc tu userID jobDescription metadata"
  let ?failed = "MarkFailed tf ''Failed to queue job for processing'' ''QUEUE_ERROR'' ?job"
  from create have fresh: "lookup_job (resume_jobs w) (uuid_New rnd) = None"
    by (simp add: gormRepository_simps gorm_Create_fresh NewResumeGenerationJob_fields)
  then have created: "repo_CreateResumeGenerationJob gormRepository (resume_jobs w) ?job =
                        (None, resume_jobs w @ [?job])"
    by (simp add: gormRepository_simps gorm_CreateResumeGenerationJob_def
        NewResumeGenerationJob_fields)
  have "lookup_job (resume_jobs w @ [?job]) (ID ?failed) = Some ?job"
    using fresh by (simp add: lookup_job_append Mark_ID NewResumeGenerationJob_fields)
  then have updated: "repo_UpdateResumeGenerationJob gormRepository (resume_jobs w @ [?job])
                        ?failed = (None, resume_jobs w @ [?failed])"
    using fresh
    by (simp add: gormRepository_simps gorm_UpdateResumeGenerationJob_def Mark_ID
        NewResumeGenerationJob_fields map_replace_absent)
  show ?thesis
    using GenerateResume_publish_failed
      [where s = "\<lparr>repo = gormRepository, rabbitMQPublisher = P\<rparr>" and tf = tf and w = w
         and rnd = rnd and tc = tc and tu = tu and userID = userID
         and jobDescription = jobDescription and metadata = metadata
         and tbl = "resume_jobs w @ [?job]" and err = err and ch = ch
         and published = published]
      created pub updated
    by simp
qed





text \<open>
  Facts of the scenario.
\<close>

lemma scenario_fresh: "lookup_job (resume_jobs scenario_world) (uuid_New 0) = None"
  by (simp add: scenario_world_def lookup_job_def)

lemma scenario_keys: "distinct (map fst (entries scenario_metadata))"
  by (simp add: scenario_metadata_def)

lemma scenario_open: "\<not> is_closed (channel scenario_world)"
  by (simp add: scenario_world_def)

lemma lookup_J1: "lookup_job (resume_jobs world_with_J1) (uuid_New 0) = Some J1"
  by (simp add: world_with_J1_def lookup_job_def J1_def NewResumeGenerationJob_fields)

lemma scenario_Metadata:
  "Metadata (NewResumeGenerationJob rnd tc tu userID jobDescription scenario_metadata) =
     scenario_metadata"
  using NewResumeGenerationJob_Metadata [OF scenario_keys]
  by (simp add: scenario_metadata_def)

lemma scenario_marshal_map:
  "marshal_map scenario_metadata = Inr (JObject [(''lang'', JString ''en'')])"
  by (simp add: scenario_metadata_def marshal_members_def json_string_ascii)

lemma scenario_description: "json_string ''Senior Go Engineer'' = ''Senior Go Engineer''"
  by (simp add: json_string_ascii)

lemma scenario_json_Marshal:
  "json_Marshal
     \<lparr>JobID = uuid_String jobID, WorkerUserID = uuid_String userID,
      WorkerJobDescription = ''Senior Go Engineer'', WorkerMetadata = scenario_metadata\<rparr> =
   Inr (JObject
          [(''jobId'', JString (uuid_String jobID)),
           (''userId'', JString (uuid_String userID)),
           (''jobDescription'', JString ''Senior Go Engineer''),
           (''metadata'', JObject [(''lang'', JString ''en'')])])"
  by (simp add: json_Marshal_message scenario_marshal_map scenario_description)

lemma broker_down_closed: "is_closed (channel broker_down_world)"
  by (simp add: broker_down_world_def scenario_world_def)

lemma broker_down_fresh: "lookup_job (resume_jobs broker_down_world) (uuid_New 0) = None"
  by (simp add: broker_down_world_def scenario_world_def lookup_job_def)

lemma broker_down_publish:
  "rabbitMQPublisher_PublishResumeGenerationJob False (channel broker_down_world)
     \<lparr>JobID = uuid_String (uuid_New 0), WorkerUserID = uuid_String 1,
      WorkerJobDescription = ''Senior Go Engineer'',
      WorkerMetadata =
        Metadata (NewResumeGenerationJob 0 10 10 1 ''Senior Go Engineer'' scenario_metadata)\<rparr> =
   (Some (Errorf (''failed to publish job: '' @ Error ErrClosed)), channel broker_down_world,
    [(LevelError, ''failed to publish job'',
      [(''jobId'', uuid_String (uuid_New 0)), (''error'', Error ErrClosed)])])"
  using closed_channel_publish [OF broker_down_closed scenario_json_Marshal, of "uuid_New 0" 1]
  by (simp add: scenario_Metadata)

lemma completed_stored:
  "lookup_job (resume_jobs completed_world) (uuid_New 0) = Some (MarkCompleted 20 77 J1)"
  by (simp add: completed_world_def scenario_world_def lookup_job_def Mark_ID J1_def
      NewResumeGenerationJob_fields)

section \<open>The claims\<close>

subsection \<open>Claim C1\<close>

text \<open>
  Claim C1. For every submission where the store's create succeeds and the publisher
  returns an error, \<^verbatim>\<open>GenerateResume\<close> returns that error (with the nil UUID), and the
  stored record of the job, the only row with its id, has status \<^verbatim>\<open>failed\<close>, the code
  \<^verbatim>\<open>QUEUE_ERROR\<close> and the message \<^verbatim>\<open>Failed to queue job for processing\<close>: the job is not
  left \<^verbatim>\<open>pending\<close>. The store is the one of section 4.1, whose update of a known id
  succeeds; the service discards the error of that update.
\<close>

theorem C1_publish_failure_marks_job_failed:
  assumes create: "fst (repo_CreateResumeGenerationJob gormRepository (resume_jobs w)
                          (NewResumeGenerationJob rnd tc tu userID jobDescription metadata)) =
                   None"
    and pub: "P (channel w)
                \<lparr>JobID = uuid_String (uuid_New rnd), WorkerUserID = uuid_String userID,
                 WorkerJobDescription = jobDescription,
                 WorkerMetadata =
                   Metadata (NewResumeGenerationJob rnd tc tu userID jobDescription metadata)\<rparr> =
              (Some err, ch, published)"
  shows "\<exists>job' w'.
           GenerateResume \<lparr>repo = gormRepository, rabbitMQPublisher = P\<rparr> w rnd tc tu tf
             userID jobDescription metadata = ((uuid_Nil, Some err), w') \<and>
           GetResumeGenerationJobStatus \<lparr>repo = gormRepository, rabbitMQPublisher = P\<rparr> w'
             (uuid_New rnd) = (Inr job', w') \<and>
           filter (\<lambda>r. ID r = uuid_New rnd) (resume_jobs w') = [job'] \<and>
           Status job' = ResumeJobStatusFailed \<and>
           ErrorCode job' = ''QUEUE_ERROR'' \<and>
           ErrorMessage job' = ''Failed to queue job for processing''"
proof -
  let ?job = "NewResumeGenerationJob rnd tc tu userID jobDescription metadata"
  let ?failed = "MarkFailed tf ''Failed to queue job for processing'' ''QUEUE_ERROR'' ?job"
  let ?w' = "w\<lparr>resume_jobs := resume_jobs w @ [?failed],
               channel := ch,
               logs := logs w @ published @
                 [(LevelError, ''failed to publish resume generation job'',
                   [(''error'', Error err), (''jobId'', uuid_String (uuid_New rnd))])]\<rparr>"
  from create have fresh: "lookup_job (resume_jobs w) (uuid_New rnd) = None"
    by (simp add: gormRepository_simps gorm_Create_fresh NewResumeGenerationJob_fields)
  have id: "ID ?failed = uuid_New rnd"
    by (simp add: Mark_ID NewResumeGenerationJob_fields)
  have run: "GenerateResume \<lparr>repo = gormRepository, rabbitMQPublisher = P\<rparr> w rnd tc tu tf
               userID jobDescription metadata = ((uuid_Nil, Some err), ?w')"
    by (rule GenerateResume_gorm_publish_failed [where P = P, OF create pub])
  have "lookup_job (resume_jobs ?w') (uuid_New rnd) = Some ?failed"
    using fresh id by (simp add: lookup_job_append)
  then have get: "GetResumeGenerationJobStatus \<lparr>repo = gormRepository, rabbitMQPublisher = P\<rparr>
                    ?w' (uuid_New rnd) = (Inr ?failed, ?w')"
    by (simp add: GetResumeGenerationJobStatus_def gormRepository_simps
        gorm_GetResumeGenerationJob_def)
  have only: "filter (\<lambda>r. ID r = uuid_New rnd) (resume_jobs ?w') = [?failed]"
    using filter_absent [OF fresh] id by simp
  from run get only show ?thesis
    by (intro exI [of _ ?failed] exI [of _ ?w']) (simp add: MarkFailed_def)
qed

text \<open>
  Claim C1 at the scenario with the broker down: the channel is closed and the
  broker-backed publisher returns the wrapped \<^verbatim>\<open>ErrClosed\<close>.
\<close>

theorem C1_publish_failure_marks_job_failed_witness:
  "fst (repo_CreateResumeGenerationJob gormRepository (resume_jobs broker_down_world) J1) =
     None \<and>
   fst (rabbitMQPublisher_PublishResumeGenerationJob False (channel broker_down_world)
          \<lparr>JobID = uuid_String (uuid_New 0), WorkerUserID = uuid_String 1,
           WorkerJobDescription = ''Senior Go Engineer'', WorkerMetadata = Metadata J1\<rparr>) =
     Some (Errorf (''failed to publish job: '' @ Error ErrClosed)) \<and>
   (\<exists>job' w'.
      GenerateResume
        \<lparr>repo = gormRepository,
         rabbitMQPublisher = rabbitMQPublisher_PublishResumeGenerationJob False\<rparr>
        broker_down_world 0 10 10 11 1 ''Senior Go Engineer'' scenario_metadata =
        ((uuid_Nil, Some (Errorf (''failed to publish job: '' @ Error ErrClosed))), w') \<and>
      GetResumeGenerationJobStatus
        \<lparr>repo = gormRepository,
         rabbitMQPublisher = rabbitMQPublisher_PublishResumeGenerationJob False\<rparr>
        w' (uuid_New 0) = (Inr job', w') \<and>
      filter (\<lambda>r. ID r = uuid_New 0) (resume_jobs w') = [job'] \<and>
      Status job' = ResumeJobStatusFailed \<and>
      ErrorCode job' = ''QUEUE_ERROR'' \<and>
      ErrorMessage job' = ''Failed to queue job for processing'')"
proof -
  let ?J = "NewResumeGenerationJob 0 10 10 1 ''Senior Go Engineer'' scenario_metadata"
  have create: "fst (repo_CreateResumeGenerationJob gormRepository
                       (resume_jobs broker_down_world) ?J) = None"
    using broker_down_fresh
    by (simp add: gormRepository_simps gorm_Create_fresh NewResumeGenerationJob_fields)
  show ?thesis
    using C1_publish_failure_marks_job_failed
      [where w = broker_down_world and rnd = 0 and tc = 10 and tu = 10 and tf = 11
         and userID = 1 and jobDescription = "''Senior Go Engineer''"
         and metadata = scenario_metadata
         and P = "rabbitMQPublisher_PublishResumeGenerationJob False",
       OF create broker_down_publish]
      create
    by (simp add: broker_down_publish J1_def)
qed

subsection \<open>Claim C2\<close>

text \<open>
  Claim C2, as stated, fails. The table holds the job \<open>J1\<close> in the terminal status
  \<^verbatim>\<open>completed\<close>; a later \<^verbatim>\<open>FailResumeGeneration\<close> for it returns no error and the stored
  status is \<^verbatim>\<open>failed\<close>.
\<close>

theorem C2_counterexample:
  "lookup_job (resume_jobs completed_world) (uuid_New 0) = Some (MarkCompleted 20 77 J1) \<and>
   terminal (Status (MarkCompleted 20 77 J1)) \<and>
   fst (FailResumeGeneration
          \<lparr>repo = gormRepository, rabbitMQPublisher = noOpPublisher_PublishResumeGenerationJob\<rparr>
          completed_world 30 (uuid_New 0) ''late failure'') = None \<and>
   map Status
     (resume_jobs
        (snd (FailResumeGeneration
                \<lparr>repo = gormRepository,
                 rabbitMQPublisher = noOpPublisher_PublishResumeGenerationJob\<rparr>
                completed_world 30 (uuid_New 0) ''late failure''))) =
     [ResumeJobStatusFailed]"
  by (simp add: completed_world_def scenario_world_def lookup_job_def Mark_ID J1_def
      NewResumeGenerationJob_fields FailResumeGeneration_def gormRepository_simps
      gorm_GetResumeGenerationJob_def gorm_UpdateResumeGenerationJob_def Let_def
      MarkCompleted_def MarkFailed_def)

text \<open>
  Claim C2, amended. The four operations are unguarded. For every job that the store
  holds, whatever its status, terminal or not, \<^verbatim>\<open>CompleteResumeGeneration\<close> returns no
  error and leaves the stored job \<^verbatim>\<open>completed\<close>, and \<^verbatim>\<open>FailResumeGeneration\<close> returns no
  error and leaves it \<^verbatim>\<open>failed\<close>; \<^verbatim>\<open>MarkProcessing\<close> leaves a job \<^verbatim>\<open>processing\<close> and
  \<^verbatim>\<open>MarkCancelled\<close> leaves it \<^verbatim>\<open>cancelled\<close>. None of the four changes the job's id, owner,
  description or metadata.
\<close>

theorem C2_operations_set_status_unguarded:
  assumes stored: "lookup_job (resume_jobs w) jobID = Some job"
  shows "(\<exists>job' w'.
            CompleteResumeGeneration \<lparr>repo = gormRepository, rabbitMQPublisher = P\<rparr> w now
              jobID resumeID = (None, w') \<and>
            lookup_job (resume_jobs w') jobID = Some job' \<and>
            Status job' = ResumeJobStatusCompleted \<and>
            ID job' = ID job \<and> UserID job' = UserID job \<and>
            JobDescription job' = JobDescription job \<and> Metadata job' = Metadata job) \<and>
         (\<exists>job' w'.
            FailResumeGeneration \<lparr>repo = gormRepository, rabbitMQPublisher = P\<rparr> w now
              jobID errorMessage = (None, w') \<and>
            lookup_job (resume_jobs w') jobID = Some job' \<and>
            Status job' = ResumeJobStatusFailed \<and>
            ID job' = ID job \<and> UserID job' = UserID job \<and>
            JobDescription job' = JobDescription job \<and> Metadata job' = Metadata job) \<and>
         Status (MarkProcessing now job) = ResumeJobStatusProcessing \<and>
         ID (MarkProcessing now job) = ID job \<and>
         UserID (MarkProcessing now job) = UserID job \<and>
         JobDescription (MarkProcessing now job) = JobDescription job \<and>
         Metadata (MarkProcessing now job) = Metadata job \<and>
         Status (MarkCancelled now job) = ResumeJobStatusCancelled \<and>
         ID (MarkCancelled now job) = ID job \<and>
         UserID (MarkCancelled now job) = UserID job \<and>
         JobDescription (MarkCancelled now job) = JobDescription job \<and>
         Metadata (MarkCancelled now job) = Metadata job"
proof -
  let ?s = "\<lparr>repo = gormRepository, rabbitMQPublisher = P\<rparr>"
  let ?c = "MarkCompleted now resumeID job"
  let ?f = "MarkFailed now errorMessage ''GENERATION_ERROR'' job"
  from gorm_Update_stored [OF stored, of ?c] obtain tc
    where c_upd: "gorm_UpdateResumeGenerationJob (resume_jobs w) ?c = (None, tc)"
      and c_look: "lookup_job tc jobID = Some ?c"
    by (auto simp: Mark_ID)
  from gorm_Update_stored [OF stored, of ?f] obtain tf
    where f_upd: "gorm_UpdateResumeGenerationJob (resume_jobs w) ?f = (None, tf)"
      and f_look: "lookup_job tf jobID = Some ?f"
    by (auto simp: Mark_ID)
  let ?wc = "w\<lparr>resume_jobs := tc,
               logs := logs w @
                 [(LevelInfo, ''resume generation job completed'',
                   [(''jobId'', uuid_String jobID), (''resumeId'', uuid_String resumeID)])]\<rparr>"
  let ?wf = "w\<lparr>resume_jobs := tf,
               logs := logs w @
                 [(LevelInfo, ''resume generation job failed'',
                   [(''jobId'', uuid_String jobID), (''error'', errorMessage)])]\<rparr>"
  have c_run: "CompleteResumeGeneration ?s w now jobID resumeID = (None, ?wc)"
    using stored c_upd
    by (simp add: CompleteResumeGeneration_def gormRepository_simps
        gorm_GetResumeGenerationJob_def Let_def)
  have f_run: "FailResumeGeneration ?s w now jobID errorMessage = (None, ?wf)"
    using stored f_upd
    by (simp add: FailResumeGeneration_def gormRepository_simps
        gorm_GetResumeGenerationJob_def Let_def)
  have complete: "\<exists>job' w'.
            CompleteResumeGeneration ?s w now jobID resumeID = (None, w') \<and>
            lookup_job (resume_jobs w') jobID = Some job' \<and>
            Status job' = ResumeJobStatusCompleted \<and>
            ID job' = ID job \<and> UserID job' = UserID job \<and>
            JobDescription job' = JobDescription job \<and> Metadata job' = Metadata job"
    using c_run c_look
    by (intro exI [of _ ?c] exI [of _ ?wc]) (simp add: MarkCompleted_def)
  have fail: "\<exists>job' w'.
            FailResumeGeneration ?s w now jobID errorMessage = (None, w') \<and>
            lookup_job (resume_jobs w') jobID = Some job' \<and>
            Status job' = ResumeJobStatusFailed \<and>
            ID job' = ID job \<and> UserID job' = UserID job \<and>
            JobDescription job' = JobDescription job \<and> Metadata job' = Metadata job"
    using f_run f_look
    by (intro exI [of _ ?f] exI [of _ ?wf]) (simp add: MarkFailed_def)
  from complete fail show ?thesis
    by (simp add: MarkProcessing_def MarkCancelled_def)
qed

text \<open>
  The amended claim C2 at a terminal job: the store holds \<open>J1\<close> as \<^verbatim>\<open>completed\<close>; a
  later Fail leaves it \<^verbatim>\<open>failed\<close>, a second Complete leaves it \<^verbatim>\<open>completed\<close>, and id, owner
  and payload stay.
\<close>

theorem C2_operations_set_status_unguarded_witness:
  "lookup_job (resume_jobs completed_world) (uuid_New 0) = Some (MarkCompleted 20 77 J1) \<and>
   terminal (Status (MarkCompleted 20 77 J1)) \<and>
   (\<exists>job' w'.
      FailResumeGeneration
        \<lparr>repo = gormRepository, rabbitMQPublisher = noOpPublisher_PublishResumeGenerationJob\<rparr>
        completed_world 30 (uuid_New 0) ''late failure'' = (None, w') \<and>
      lookup_job (resume_jobs w') (uuid_New 0) = Some job' \<and>
      Status job' = ResumeJobStatusFailed \<and>
      ID job' = uuid_New 0 \<and> UserID job' = 1 \<and>
      JobDescription job' = ''Senior Go Engineer'' \<and> Metadata job' = scenario_metadata) \<and>
   (\<exists>job' w'.
      CompleteResumeGeneration
        \<lparr>repo = gormRepository, rabbitMQPublisher = noOpPublisher_PublishResumeGenerationJob\<rparr>
        completed_world 30 (uuid_New 0) 78 = (None, w') \<and>
      lookup_job (resume_jobs w') (uuid_New 0) = Some job' \<and>
      Status job' = ResumeJobStatusCompleted \<and>
      ID job' = uuid_New 0 \<and> UserID job' = 1)"
proof -
  have fields: "ID (MarkCompleted 20 77 J1) = uuid_New 0" "UserID (MarkCompleted 20 77 J1) = 1"
    "JobDescription (MarkCompleted 20 77 J1) = ''Senior Go Engineer''"
    "Metadata (MarkCompleted 20 77 J1) = scenario_metadata"
    "terminal (Status (MarkCompleted 20 77 J1))"
    by (simp_all add: MarkCompleted_def J1_def NewResumeGenerationJob_fields scenario_Metadata)
  note inst = C2_operations_set_status_unguarded
    [where w = completed_world and jobID = "uuid_New 0" and job = "MarkCompleted 20 77 J1"
       and now = 30 and resumeID = 78 and errorMessage = "''late failure''"
       and P = noOpPublisher_PublishResumeGenerationJob, OF completed_stored]
  from inst have fail: "\<exists>job' w'.
      FailResumeGeneration
        \<lparr>repo = gormRepository, rabbitMQPublisher = noOpPublisher_PublishResumeGenerationJob\<rparr>
        completed_world 30 (uuid_New 0) ''late failure'' = (None, w') \<and>
      lookup_job (resume_jobs w') (uuid_New 0) = Some job' \<and>
      Status job' = ResumeJobStatusFailed \<and>
      ID job' = uuid_New 0 \<and> UserID job' = 1 \<and>
      JobDescription job' = ''Senior Go Engineer'' \<and> Metadata job' = scenario_metadata"
    by (simp add: fields)
  from inst have complete: "\<exists>job' w'.
      CompleteResumeGeneration
        \<lparr>repo = gormRepository, rabbitMQPublisher = noOpPublisher_PublishResumeGenerationJob\<rparr>
        completed_world 30 (uuid_New 0) 78 = (None, w') \<and>
      lookup_job (resume_jobs w') (uuid_New 0) = Some job' \<and>
      Status job' = ResumeJobStatusCompleted \<and>
      ID job' = uuid_New 0 \<and> UserID job' = 1"
    by (simp add: fields) blast
  from fail complete completed_stored fields(5) show ?thesis
    by blast
qed

subsection \<open>Claim C3\<close>



subsection \<open>Claim C4\<close>

text \<open>
  Claim C4. For every job that the store holds, \<^verbatim>\<open>CompleteResumeGeneration\<close> with a
  result reference returns no error, and the stored job afterwards has status
  \<^verbatim>\<open>completed\<close>, that reference as \<^verbatim>\<open>ResumeID\<close>, and both error fields empty. With the
  store of section 4.1 the read and the update succeed exactly because the job is there.
  The status before does not matter: the statement holds for the non-terminal jobs of
  the claim and for all others.
\<close>

theorem C4_complete_sets_result_and_clears_errors:
  assumes stored: "lookup_job (resume_jobs w) jobID = Some job"
  shows "\<exists>job' w'.
           CompleteResumeGeneration \<lparr>repo = gormRepository, rabbitMQPublisher = P\<rparr> w now
             jobID resumeID = (None, w') \<and>
           GetResumeGenerationJobStatus \<lparr>repo = gormRepository, rabbitMQPublisher = P\<rparr> w'
             jobID = (Inr job', w') \<and>
           job' = MarkCompleted now resumeID job \<and>
           Status job' = ResumeJobStatusCompleted \<and>
           ResumeID job' = Some resumeID \<and>
           ErrorMessage job' = [] \<and> ErrorCode job' = []"
proof -
  let ?job' = "MarkCompleted now resumeID job"
  from gorm_Update_stored [OF stored, of ?job'] obtain tbl'
    where upd: "gorm_UpdateResumeGenerationJob (resume_jobs w) ?job' = (None, tbl')"
      and look: "lookup_job tbl' jobID = Some ?job'"
    by (auto simp: Mark_ID)
  let ?w' = "w\<lparr>resume_jobs := tbl',
               logs := logs w @
                 [(LevelInfo, ''resume generation job completed'',
                   [(''jobId'', uuid_String jobID), (''resumeId'', uuid_String resumeID)])]\<rparr>"
  have run: "CompleteResumeGeneration \<lparr>repo = gormRepository, rabbitMQPublisher = P\<rparr> w now
               jobID resumeID = (None, ?w')"
    using stored upd
    by (simp add: CompleteResumeGeneration_def gormRepository_simps
        gorm_GetResumeGenerationJob_def Let_def)
  have get: "GetResumeGenerationJobStatus \<lparr>repo = gormRepository, rabbitMQPublisher = P\<rparr> ?w'
               jobID = (Inr ?job', ?w')"
    using look
    by (simp add: GetResumeGenerationJobStatus_def gormRepository_simps
        gorm_GetResumeGenerationJob_def)
  from run get show ?thesis
    by (intro exI [of _ ?job'] exI [of _ ?w']) (simp add: MarkCompleted_def)
qed

text \<open>
  Claim C4 at the scenario: the worker completes \<open>J1\<close> with the resume 77.
\<close>

theorem C4_complete_sets_result_and_clears_errors_witness:
  "lookup_job (resume_jobs world_with_J1) (uuid_New 0) = Some J1 \<and>
   (\<exists>job' w'.
      CompleteResumeGeneration
        \<lparr>repo = gormRepository, rabbitMQPublisher = noOpPublisher_PublishResumeGenerationJob\<rparr>
        world_with_J1 20 (uuid_New 0) 77 = (None, w') \<and>
      GetResumeGenerationJobStatus
        \<lparr>repo = gormRepository, rabbitMQPublisher = noOpPublisher_PublishResumeGenerationJob\<rparr>
        w' (uuid_New 0) = (Inr job', w') \<and>
      job' = MarkCompleted 20 77 J1 \<and>
      Status job' = ResumeJobStatusCompleted \<and>
      ResumeID job' = Some 77 \<and>
      ErrorMessage job' = [] \<and> ErrorCode job' = [])"
  using C4_complete_sets_result_and_clears_errors
    [where w = world_with_J1 and jobID = "uuid_New 0" and job = J1 and now = 20
       and resumeID = 77 and P = noOpPublisher_PublishResumeGenerationJob, OF lookup_J1]
    lookup_J1
  by simp

subsection \<open>Claim C5\<close>

text \<open>
  Claim C5. For every job that the store holds, \<^verbatim>\<open>FailResumeGeneration\<close> with a message
  returns no error, and the stored job afterwards has status \<^verbatim>\<open>failed\<close>, that message
  as \<^verbatim>\<open>ErrorMessage\<close>, and the code \<^verbatim>\<open>GENERATION_ERROR\<close>: the callback takes no code.
  Again the status before does not matter.
\<close>

theorem C5_fail_records_message_and_generic_code:
  assumes stored: "lookup_job (resume_jobs w) jobID = Some job"
  shows "\<exists>job' w'.
           FailResumeGeneration \<lparr>repo = gormRepository, rabbitMQPublisher = P\<rparr> w now
             jobID errorMessage = (None, w') \<and>
           GetResumeGenerationJobStatus \<lparr>repo = gormRepository, rabbitMQPublisher = P\<rparr> w'
             jobID = (Inr job', w') \<and>
           job' = MarkFailed now errorMessage ''GENERATION_ERROR'' job \<and>
           Status job' = ResumeJobStatusFailed \<and>
           ErrorMessage job' = errorMessage \<and>
           ErrorCode job' = ''GENERATION_ERROR''"
proof -
  let ?job' = "MarkFailed now errorMessage ''GENERATION_ERROR'' job"
  from gorm_Update_stored [OF stored, of ?job'] obtain tbl'
    where upd: "gorm_UpdateResumeGenerationJob (resume_jobs w) ?job' = (None, tbl')"
      and look: "lookup_job tbl' jobID = Some ?job'"
    by (auto simp: Mark_ID)
  let ?w' = "w\<lparr>resume_jobs := tbl',
               logs := logs w @
                 [(LevelInfo, ''resume generation job failed'',
                   [(''jobId'', uuid_String jobID), (''error'', errorMessage)])]\<rparr>"
  have run: "FailResumeGeneration \<lparr>repo = gormRepository, rabbitMQPublisher = P\<rparr> w now
               jobID errorMessage = (None, ?w')"
    using stored upd
    by (simp add: FailResumeGeneration_def gormRepository_simps
        gorm_GetResumeGenerationJob_def Let_def)
  have get: "GetResumeGenerationJobStatus \<lparr>repo = gormRepository, rabbitMQPublisher = P\<rparr> ?w'
               jobID = (Inr ?job', ?w')"
    using look
    by (simp add: GetResumeGenerationJobStatus_def gormRepository_simps
        gorm_GetResumeGenerationJob_def)
  from run get show ?thesis
    by (intro exI [of _ ?job'] exI [of _ ?w']) (simp add: MarkFailed_def)
qed

text \<open>
  Claim C5 at the scenario: the worker fails \<open>J1\<close> with \<^verbatim>\<open>template render error\<close>.
\<close>

theorem C5_fail_records_message_and_generic_code_witness:
  "lookup_job (resume_jobs world_with_J1) (uuid_New 0) = Some J1 \<and>
   (\<exists>job' w'.
      FailResumeGeneration
        \<lparr>repo = gormRepository, rabbitMQPublisher = noOpPublisher_PublishResumeGenerationJob\<rparr>
        world_with_J1 20 (uuid_New 0) ''template render error'' = (None, w') \<and>
      GetResumeGenerationJobStatus
        \<lparr>repo = gormRepository, rabbitMQPublisher = noOpPublisher_PublishResumeGenerationJob\<rparr>
        w' (uuid_New 0) = (Inr job', w') \<and>
      job' = MarkFailed 20 ''template render error'' ''GENERATION_ERROR'' J1 \<and>
      Status job' = ResumeJobStatusFailed \<and>
      ErrorMessage job' = ''template render error'' \<and>
      ErrorCode job' = ''GENERATION_ERROR'')"
  using C5_fail_records_message_and_generic_code
    [where w = world_with_J1 and jobID = "uuid_New 0" and job = J1 and now = 20
       and errorMessage = "''template render error''"
       and P = noOpPublisher_PublishResumeGenerationJob, OF lookup_J1]
    lookup_J1
  by simp

subsection \<open>Claim C6\<close>




subsection \<open>Claim C7\<close>

text \<open>
  Claim C7, as stated, fails. The table holds \<open>J1\<close>, owned by user 1. User 2 is a
  different principal; \<^verbatim>\<open>GetResumeGenerationJobStatus\<close> has no argument for the
  requesting owner, and what it returns for the id of \<open>J1\<close> is the record \<open>J1\<close>, not
  \<^verbatim>\<open>NotFound\<close>.
\<close>

theorem C7_counterexample:
  "lookup_job (resume_jobs world_with_J1) (uuid_New 0) = Some J1 \<and>
   UserID J1 = 1 \<and> UserID J1 \<noteq> 2 \<and>
   fst (GetResumeGenerationJobStatus
          \<lparr>repo = gormRepository, rabbitMQPublisher = noOpPublisher_PublishResumeGenerationJob\<rparr>
          world_with_J1 (uuid_New 0)) = Inr J1"
  using lookup_J1
  by (simp add: GetResumeGenerationJobStatus_def gormRepository_simps
      gorm_GetResumeGenerationJob_def J1_def NewResumeGenerationJob_fields)

text \<open>
  Claim C7, amended. \<^verbatim>\<open>GetResumeGenerationJobStatus\<close> takes the job id only, and what it
  returns is what the store's lookup by that id returns: the service adds no check of
  the owner. With the reference store its result is determined by the row of that id
  alone: it fails with \<^verbatim>\<open>NotFound\<close> (and logs the failure) exactly when the table has no
  such row, and it returns the stored record, whoever owns it, when the table has one.
\<close>

theorem C7_status_lookup_by_id_only:
  "fst (GetResumeGenerationJobStatus s w jobID) =
     repo_GetResumeGenerationJob (repo s) (resume_jobs w) jobID \<and>
   GetResumeGenerationJobStatus \<lparr>repo = gormRepository, rabbitMQPublisher = P\<rparr> w jobID =
     (case lookup_job (resume_jobs w) jobID of
        None \<Rightarrow>
          (Inl NotFound,
           w\<lparr>logs := logs w @
               [(LevelError, ''failed to get resume generation job status'',
                 [(''error'', Error NotFound), (''jobId'', uuid_String jobID)])]\<rparr>)
      | Some job \<Rightarrow> (Inr job, w)) \<and>
   (fst (GetResumeGenerationJobStatus \<lparr>repo = gormRepository, rabbitMQPublisher = P\<rparr> w jobID) =
      Inl NotFound) = (lookup_job (resume_jobs w) jobID = None)"
proof (intro conjI)
  show "fst (GetResumeGenerationJobStatus s w jobID) =
          repo_GetResumeGenerationJob (repo s) (resume_jobs w) jobID"
    by (rule GetStatus_is_repo_Get)
qed (simp_all add: GetResumeGenerationJobStatus_def gormRepository_simps
      gorm_GetResumeGenerationJob_def split: option.splits)

subsection \<open>Claim C8\<close>

text \<open>
  Claim C8, as stated, fails. The one message that the submission of the scenario
  leaves on the open channel has the members \<^verbatim>\<open>jobId\<close>, \<^verbatim>\<open>userId\<close>, \<^verbatim>\<open>jobDescription\<close>,
  \<^verbatim>\<open>metadata\<close>; these are not the names \<^verbatim>\<open>jobId\<close>, \<^verbatim>\<open>ownerId\<close>, \<^verbatim>\<open>description\<close>,
  \<^verbatim>\<open>metadata\<close>.
\<close>

theorem C8_counterexample:
  "map (\<lambda>(exchange, key, mandatory, immediate, msg). member_names (Body msg))
     (accepted
        (channel
           (snd (GenerateResume
                   \<lparr>repo = gormRepository,
                    rabbitMQPublisher = rabbitMQPublisher_PublishResumeGenerationJob False\<rparr>
                   scenario_world 0 10 10 11 1 ''Senior Go Engineer'' scenario_metadata)))) =
     [[''jobId'', ''userId'', ''jobDescription'', ''metadata'']] \<and>
   set [''jobId'', ''userId'', ''jobDescription'', ''metadata''] \<noteq>
     set [''jobId'', ''ownerId'', ''description'', ''metadata'']"
proof -
  let ?job = "NewResumeGenerationJob 0 10 10 1 ''Senior Go Engineer'' scenario_metadata"
  let ?m = "\<lparr>JobID = uuid_String (uuid_New 0), WorkerUserID = uuid_String 1,
             WorkerJobDescription = ''Senior Go Engineer'', WorkerMetadata = Metadata ?job\<rparr>"
  have sent: "rabbitMQPublisher_PublishResumeGenerationJob False (channel scenario_world) ?m =
      (None,
       (channel scenario_world)
         \<lparr>accepted := accepted (channel scenario_world) @
            [(resumeExchange, resumeRoutingKey, False, False,
              \<lparr>ContentType = ''application/json'',
               Body =
                 JObject
                   [(''jobId'', JString (uuid_String (uuid_New 0))),
                    (''userId'', JString (uuid_String 1)),
                    (''jobDescription'', JString ''Senior Go Engineer''),
                    (''metadata'', JObject [(''lang'', JString ''en'')])],
               DeliveryMode = amqp_Persistent\<rparr>)]\<rparr>,
       [(LevelInfo, ''resume generation job published'',
         [(''jobId'', uuid_String (uuid_New 0)), (''userId'', uuid_String 1)])])"
    using open_channel_publish [OF scenario_open scenario_json_Marshal, of "uuid_New 0" 1]
    by (simp add: scenario_Metadata)
  then have pub: "fst (rabbitMQPublisher_PublishResumeGenerationJob False
                        (channel scenario_world) ?m) = None"
    by simp
  have "''userId'' \<notin> set [''jobId'', ''ownerId'', ''description'', ''metadata'']"
    by simp
  then have diff: "set [''jobId'', ''userId'', ''jobDescription'', ''metadata''] \<noteq>
                   set [''jobId'', ''ownerId'', ''description'', ''metadata'']"
    by (metis list.set_intros(1,2))
  have "accepted
          (channel
             (snd (GenerateResume
                     \<lparr>repo = gormRepository,
                      rabbitMQPublisher = rabbitMQPublisher_PublishResumeGenerationJob False\<rparr>
                     scenario_world 0 10 10 11 1 ''Senior Go Engineer'' scenario_metadata))) =
        accepted (channel scenario_world) @
          [(resumeExchange, resumeRoutingKey, False, False,
            \<lparr>ContentType = ''application/json'',
             Body =
               JObject
                 [(''jobId'', JString (uuid_String (uuid_New 0))),
                  (''userId'', JString (uuid_String 1)),
                  (''jobDescription'', JString ''Senior Go Engineer''),
                  (''metadata'', JObject [(''lang'', JString ''en'')])],
             DeliveryMode = amqp_Persistent\<rparr>)]"
    using GenerateResume_published
      [where m = ?m and P = "rabbitMQPublisher_PublishResumeGenerationJob False" and tf = 11,
        OF scenario_fresh pub refl]
    by (simp add: sent)
  with diff show ?thesis
    by (simp add: scenario_world_def)
qed

text \<open>
  Claim C8, amended. For every job submitted (the metadata being a Go map), the message
  handed to the publisher carries the job's id and owner in their string form, the
  description and the metadata bag: a publisher that answers every message as the given
  one answers this message gives the same submission, for any store and publisher.
  \<^verbatim>\<open>json.Marshal\<close> of the message, when the metadata bag can be encoded, is a JSON object
  with exactly the members \<^verbatim>\<open>jobId\<close>, \<^verbatim>\<open>userId\<close>, \<^verbatim>\<open>jobDescription\<close>, \<^verbatim>\<open>metadata\<close>: the
  two UUID strings, the description as the encoder writes a string (bytes that are not
  UTF-8 become U+FFFD), and the encoded bag (entries sorted by key). When the store
  accepts the job and the channel is open, this object is the body of the one message
  that the broker-backed publisher hands to the channel, persistent and under the fixed
  exchange and routing key. When the bag holds a value that cannot be encoded, the
  publisher hands nothing to the channel and the submission fails with the marshal error.
\<close>

theorem C8_published_message_fields:
  assumes keys: "distinct (map fst (entries metadata))"
  shows "GenerateResume s w rnd tc tu tf userID jobDescription metadata =
           GenerateResume
             (s\<lparr>rabbitMQPublisher :=
                  (\<lambda>ch m. rabbitMQPublisher s ch
                     \<lparr>JobID = uuid_String (uuid_New rnd), WorkerUserID = uuid_String userID,
                      WorkerJobDescription = jobDescription,
                      WorkerMetadata = Some (entries metadata)\<rparr>)\<rparr>)
             w rnd tc tu tf userID jobDescription metadata \<and>
         json_Marshal
           \<lparr>JobID = uuid_String (uuid_New rnd), WorkerUserID = uuid_String userID,
            WorkerJobDescription = jobDescription,
            WorkerMetadata = Some (entries metadata)\<rparr> =
           (case marshal_map (Some (entries metadata)) of
              Inl err \<Rightarrow> Inl err
            | Inr md \<Rightarrow>
                Inr (JObject
                       [(''jobId'', JString (uuid_String (uuid_New rnd))),
                        (''userId'', JString (uuid_String userID)),
                        (''jobDescription'', JString (json_string jobDescription)),
                        (''metadata'', md)])) \<and>
         (lookup_job (resume_jobs w) (uuid_New rnd) = None \<and> \<not> is_closed (channel w) \<and>
          marshal_map (Some (entries metadata)) = Inr md \<longrightarrow>
          accepted
            (channel
               (snd (GenerateResume
                       \<lparr>repo = gormRepository,
                        rabbitMQPublisher = rabbitMQPublisher_PublishResumeGenerationJob False\<rparr>
                       w rnd tc tu tf userID jobDescription metadata))) =
          accepted (channel w) @
            [(resumeExchange, resumeRoutingKey, False, False,
              \<lparr>ContentType = ''application/json'',
               Body =
                 JObject
                   [(''jobId'', JString (uuid_String (uuid_New rnd))),
                    (''userId'', JString (uuid_String userID)),
                    (''jobDescription'', JString (json_string jobDescription)),
                    (''metadata'', md)],
               DeliveryMode = amqp_Persistent\<rparr>)]) \<and>
         (lookup_job (resume_jobs w) (uuid_New rnd) = None \<and>
          marshal_map (Some (entries metadata)) = Inl err \<longrightarrow>
          fst (GenerateResume
                 \<lparr>repo = gormRepository,
                  rabbitMQPublisher = rabbitMQPublisher_PublishResumeGenerationJob False\<rparr>
                 w rnd tc tu tf userID jobDescription metadata) =
            (uuid_Nil, Some (Errorf (''failed to marshal job: '' @ Error err))) \<and>
          channel
            (snd (GenerateResume
                    \<lparr>repo = gormRepository,
                     rabbitMQPublisher = rabbitMQPublisher_PublishResumeGenerationJob False\<rparr>
                    w rnd tc tu tf userID jobDescription metadata)) = channel w)"
proof (intro conjI impI)
  let ?job = "NewResumeGenerationJob rnd tc tu userID jobDescription metadata"
  let ?m = "\<lparr>JobID = uuid_String (uuid_New rnd), WorkerUserID = uuid_String userID,
             WorkerJobDescription = jobDescription, WorkerMetadata = Metadata ?job\<rparr>"
  let ?P = "rabbitMQPublisher_PublishResumeGenerationJob False"
  let ?G = "GenerateResume \<lparr>repo = gormRepository, rabbitMQPublisher = ?P\<rparr>
              w rnd tc tu tf userID jobDescription metadata"
  note md = NewResumeGenerationJob_Metadata [OF keys, of rnd tc tu userID jobDescription]
  note marshal = json_Marshal_message [of "uuid_New rnd" userID jobDescription
      "Some (entries metadata)"]
  show "GenerateResume s w rnd tc tu tf userID jobDescription metadata =
           GenerateResume
             (s\<lparr>rabbitMQPublisher :=
                  (\<lambda>ch m. rabbitMQPublisher s ch
                     \<lparr>JobID = uuid_String (uuid_New rnd), WorkerUserID = uuid_String userID,
                      WorkerJobDescription = jobDescription,
                      WorkerMetadata = Some (entries metadata)\<rparr>)\<rparr>)
             w rnd tc tu tf userID jobDescription metadata"
    by (rule GenerateResume_message [OF keys])
  show "json_Marshal
           \<lparr>JobID = uuid_String (uuid_New rnd), WorkerUserID = uuid_String userID,
            WorkerJobDescription = jobDescription,
            WorkerMetadata = Some (entries metadata)\<rparr> =
           (case marshal_map (Some (entries metadata)) of
              Inl err \<Rightarrow> Inl err
            | Inr md \<Rightarrow>
                Inr (JObject
                       [(''jobId'', JString (uuid_String (uuid_New rnd))),
                        (''userId'', JString (uuid_String userID)),
                        (''jobDescription'', JString (json_string jobDescription)),
                        (''metadata'', md)]))"
    by (rule marshal)
  {
    assume a: "lookup_job (resume_jobs w) (uuid_New rnd) = None \<and> \<not> is_closed (channel w) \<and>
               marshal_map (Some (entries metadata)) = Inr md"
    then have fresh: "lookup_job (resume_jobs w) (uuid_New rnd) = None"
      and opened: "\<not> is_closed (channel w)"
      and ok: "marshal_map (Some (entries metadata)) = Inr md"
      by blast+
    let ?body = "JObject
                   [(''jobId'', JString (uuid_String (uuid_New rnd))),
                    (''userId'', JString (uuid_String userID)),
                    (''jobDescription'', JString (json_string jobDescription)),
                    (''metadata'', md)]"
    have body: "json_Marshal ?m = Inr ?body"
      using marshal ok by (simp add: md)
    note sent = open_channel_publish [OF opened body]
    then have pub: "fst (?P (channel w) ?m) = None"
      by simp
    show "accepted (channel (snd ?G)) =
          accepted (channel w) @
            [(resumeExchange, resumeRoutingKey, False, False,
              \<lparr>ContentType = ''application/json'', Body = ?body,
               DeliveryMode = amqp_Persistent\<rparr>)]"
      using GenerateResume_published [where m = ?m and P = ?P and tf = tf, OF fresh pub refl]
      by (simp add: sent)
  }
  {
    assume a: "lookup_job (resume_jobs w) (uuid_New rnd) = None \<and>
               marshal_map (Some (entries metadata)) = Inl err"
    then have fresh: "lookup_job (resume_jobs w) (uuid_New rnd) = None"
      and bad: "marshal_map (Some (entries metadata)) = Inl err"
      by blast+
    have "json_Marshal ?m = Inl err"
      using marshal bad by (simp add: md)
    then have pub: "?P (channel w) ?m =
                      (Some (Errorf (''failed to marshal job: '' @ Error err)), channel w, [])"
      by (rule unsupported_publish)
    have create: "fst (repo_CreateResumeGenerationJob gormRepository (resume_jobs w) ?job) =
                    None"
      using fresh
      by (simp add: gormRepository_simps gorm_Create_fresh NewResumeGenerationJob_fields)
    note run = GenerateResume_gorm_publish_failed [where P = ?P and tf = tf, OF create pub]
    show "fst ?G = (uuid_Nil, Some (Errorf (''failed to marshal job: '' @ Error err)))"
      by (simp add: run)
    show "channel (snd ?G) = channel w"
      by (simp add: run)
  }
qed

text \<open>
  The amended claim C8 at the scenario, with the two UUIDs written out.
\<close>

theorem C8_published_message_fields_witness:
  "distinct (map fst (entries scenario_metadata)) \<and>
   lookup_job (resume_jobs scenario_world) (uuid_New 0) = None \<and>
   \<not> is_closed (channel scenario_world) \<and>
   marshal_map (Some (entries scenario_metadata)) = Inr (JObject [(''lang'', JString ''en'')]) \<and>
   accepted
     (channel
        (snd (GenerateResume
                \<lparr>repo = gormRepository,
                 rabbitMQPublisher = rabbitMQPublisher_PublishResumeGenerationJob False\<rparr>
                scenario_world 0 10 10 11 1 ''Senior Go Engineer'' scenario_metadata))) =
     [(''woragis.tasks'', ''resumes.generate'', False, False,
       \<lparr>ContentType = ''application/json'',
        Body =
          JObject
            [(''jobId'', JString ''00000000-0000-4000-8000-000000000000''),
             (''userId'', JString ''00000000-0000-0000-0000-000000000001''),
             (''jobDescription'', JString ''Senior Go Engineer''),
             (''metadata'', JObject [(''lang'', JString ''en'')])],
        DeliveryMode = 2\<rparr>)]"
proof -
  have id: "uuid_String (uuid_New 0) = ''00000000-0000-4000-8000-000000000000''"
    by code_simp
  have owner: "uuid_String 1 = ''00000000-0000-0000-0000-000000000001''"
    by code_simp
  have ok: "marshal_map (Some (entries scenario_metadata)) =
              Inr (JObject [(''lang'', JString ''en'')])"
    using scenario_marshal_map by (simp add: scenario_metadata_def)
  note published =
    conjunct1 [OF conjunct2 [OF conjunct2 [OF C8_published_message_fields
      [where w = scenario_world and rnd = 0 and metadata = scenario_metadata and tc = 10
         and tu = 10 and tf = 11 and userID = 1 and jobDescription = "''Senior Go Engineer''"
         and md = "JObject [(''lang'', JString ''en'')]",
       OF scenario_keys]]], rule_format,
       OF conjI [OF scenario_fresh conjI [OF scenario_open ok]]]
  show ?thesis
    using published scenario_fresh scenario_keys scenario_open ok
    by (simp add: id owner scenario_description scenario_world_def resumeExchange_def
        resumeRoutingKey_def amqp_Persistent_def)
qed

subsection \<open>Claim C9\<close>

text \<open>
  Claim C9. The no-op publisher returns no error for every message on every channel,
  leaves the channel as it is, and writes one warning that names the job and the user.
  With it installed, the error that \<^verbatim>\<open>GenerateResume\<close> returns is the error of the store's
  create and nothing else, for any store, and the channel is untouched: nothing is
  handed to the broker, hence nothing reaches a worker. And when the store accepts the
  job, \<^verbatim>\<open>GenerateResume\<close> returns the new job's id and no error, the stored job is
  \<^verbatim>\<open>pending\<close>, and the warning is in the log.
\<close>

theorem C9_noop_publisher_leaves_job_pending:
  "noOpPublisher_PublishResumeGenerationJob ch m =
     (None, ch,
      [(LevelWarn, ''RabbitMQ publisher is not available, job will not be queued'',
        [(''jobId'', JobID m), (''userId'', WorkerUserID m)])]) \<and>
   snd (fst (GenerateResume
               \<lparr>repo = R, rabbitMQPublisher = noOpPublisher_PublishResumeGenerationJob\<rparr>
               w rnd tc tu tf userID jobDescription metadata)) =
     fst (repo_CreateResumeGenerationJob R (resume_jobs w)
            (NewResumeGenerationJob rnd tc tu userID jobDescription metadata)) \<and>
   channel (snd (GenerateResume
                   \<lparr>repo = R, rabbitMQPublisher = noOpPublisher_PublishResumeGenerationJob\<rparr>
                   w rnd tc tu tf userID jobDescription metadata)) = channel w \<and>
   (lookup_job (resume_jobs w) (uuid_New rnd) = None \<longrightarrow>
    (\<exists>job w'.
       GenerateResume
         \<lparr>repo = gormRepository,
          rabbitMQPublisher = noOpPublisher_PublishResumeGenerationJob\<rparr>
         w rnd tc tu tf userID jobDescription metadata = ((ID job, None), w') \<and>
       ID job = uuid_New rnd \<and>
       lookup_job (resume_jobs w') (ID job) = Some job \<and>
       Status job = ResumeJobStatusPending \<and>
       channel w' = channel w \<and>
       logs w' =
         logs w @
         [(LevelWarn, ''RabbitMQ publisher is not available, job will not be queued'',
           [(''jobId'', uuid_String (ID job)), (''userId'', uuid_String userID)]),
          (LevelInfo, ''resume generation job created and queued'',
           [(''jobId'', uuid_String (ID job)), (''userId'', uuid_String userID)])]))"
proof (intro conjI impI)
  show "noOpPublisher_PublishResumeGenerationJob ch m =
     (None, ch,
      [(LevelWarn, ''RabbitMQ publisher is not available, job will not be queued'',
        [(''jobId'', JobID m), (''userId'', WorkerUserID m)])])"
    by (simp add: noOpPublisher_PublishResumeGenerationJob_def)
next
  show "snd (fst (GenerateResume
               \<lparr>repo = R, rabbitMQPublisher = noOpPublisher_PublishResumeGenerationJob\<rparr>
               w rnd tc tu tf userID jobDescription metadata)) =
     fst (repo_CreateResumeGenerationJob R (resume_jobs w)
            (NewResumeGenerationJob rnd tc tu userID jobDescription metadata))"
    by (rule GenerateResume_noOp_error)
next
  show "channel (snd (GenerateResume
                   \<lparr>repo = R, rabbitMQPublisher = noOpPublisher_PublishResumeGenerationJob\<rparr>
                   w rnd tc tu tf userID jobDescription metadata)) = channel w"
    by (rule GenerateResume_noOp_channel)
next
  assume fresh: "lookup_job (resume_jobs w) (uuid_New rnd) = None"
  let ?job = "NewResumeGenerationJob rnd tc tu userID jobDescription metadata"
  let ?m = "\<lparr>JobID = uuid_String (uuid_New rnd), WorkerUserID = uuid_String userID,
             WorkerJobDescription = jobDescription, WorkerMetadata = Metadata ?job\<rparr>"
  let ?w' = "w\<lparr>resume_jobs := resume_jobs w @ [?job],
               channel := channel w,
               logs := logs w @
                 [(LevelWarn, ''RabbitMQ publisher is not available, job will not be queued'',
                   [(''jobId'', uuid_String (uuid_New rnd)), (''userId'', uuid_String userID)]),
                  (LevelInfo, ''resume generation job created and queued'',
                   [(''jobId'', uuid_String (uuid_New rnd)),
                    (''userId'', uuid_String userID)])]\<rparr>"
  have pub: "fst (noOpPublisher_PublishResumeGenerationJob (channel w) ?m) = None"
    by (simp add: noOpPublisher_PublishResumeGenerationJob_def)
  have run: "GenerateResume
               \<lparr>repo = gormRepository,
                rabbitMQPublisher = noOpPublisher_PublishResumeGenerationJob\<rparr>
               w rnd tc tu tf userID jobDescription metadata = ((ID ?job, None), ?w')"
    using GenerateResume_published
      [where m = ?m and P = noOpPublisher_PublishResumeGenerationJob and tf = tf,
        OF fresh pub refl]
    by (simp add: noOpPublisher_PublishResumeGenerationJob_def NewResumeGenerationJob_fields)
  have look: "lookup_job (resume_jobs ?w') (ID ?job) = Some ?job"
    using fresh by (simp add: lookup_job_append NewResumeGenerationJob_fields)
  show "\<exists>job w'.
          GenerateResume
            \<lparr>repo = gormRepository,
             rabbitMQPublisher = noOpPublisher_PublishResumeGenerationJob\<rparr>
            w rnd tc tu tf userID jobDescription metadata = ((ID job, None), w') \<and>
          ID job = uuid_New rnd \<and>
          lookup_job (resume_jobs w') (ID job) = Some job \<and>
          Status job = ResumeJobStatusPending \<and>
          channel w' = channel w \<and>
          logs w' =
            logs w @
            [(LevelWarn, ''RabbitMQ publisher is not available, job will not be queued'',
              [(''jobId'', uuid_String (ID job)), (''userId'', uuid_String userID)]),
             (LevelInfo, ''resume generation job created and queued'',
              [(''jobId'', uuid_String (ID job)), (''userId'', uuid_String userID)])]"
    using run look
    by (intro exI [of _ ?job] exI [of _ ?w']) (simp add: NewResumeGenerationJob_fields)
qed

text \<open>
  Claim C9 at the scenario.
\<close>

theorem C9_noop_publisher_leaves_job_pending_witness:
  "lookup_job (resume_jobs scenario_world) (uuid_New 0) = None \<and>
   (\<exists>job w'.
      GenerateResume
        \<lparr>repo = gormRepository,
         rabbitMQPublisher = noOpPublisher_PublishResumeGenerationJob\<rparr>
        scenario_world 0 10 10 11 1 ''Senior Go Engineer'' scenario_metadata =
        ((ID job, None), w') \<and>
      ID job = uuid_New 0 \<and>
      lookup_job (resume_jobs w') (ID job) = Some job \<and>
      Status job = ResumeJobStatusPending \<and>
      accepted (channel w') = [] \<and>
      map fst (logs w') = [LevelWarn, LevelInfo])"
proof -
  note submit =
    conjunct2 [OF conjunct2 [OF conjunct2 [OF C9_noop_publisher_leaves_job_pending
      [where w = scenario_world and rnd = 0 and tc = 10 and tu = 10 and tf = 11
         and userID = 1 and jobDescription = "''Senior Go Engineer''"
         and metadata = scenario_metadata]]], rule_format, OF scenario_fresh]
  from submit obtain job w' where
    "GenerateResume
        \<lparr>repo = gormRepository,
         rabbitMQPublisher = noOpPublisher_PublishResumeGenerationJob\<rparr>
        scenario_world 0 10 10 11 1 ''Senior Go Engineer'' scenario_metadata =
        ((ID job, None), w')"
    "ID job = uuid_New 0"
    "lookup_job (resume_jobs w') (ID job) = Some job"
    "Status job = ResumeJobStatusPending"
    "channel w' = channel scenario_world"
    "logs w' =
       logs scenario_world @
       [(LevelWarn, ''RabbitMQ publisher is not available, job will not be queued'',
         [(''jobId'', uuid_String (ID job)), (''userId'', uuid_String 1)]),
        (LevelInfo, ''resume generation job created and queued'',
         [(''jobId'', uuid_String (ID job)), (''userId'', uuid_String 1)])]"
    by blast
  then show ?thesis
    using scenario_fresh
    by (intro conjI exI [of _ job] exI [of _ w']) (simp_all add: scenario_world_def)
qed

subsection \<open>Claim C10\<close>

text \<open>
  Claim C10. Whenever \<^verbatim>\<open>GenerateResume\<close> returns an error, the job id it returns is the
  nil UUID, for every store and publisher. In particular, after a publish failure (the
  store's create has succeeded) it returns the publish error with the nil UUID, and a
  record with status \<^verbatim>\<open>failed\<close> exists in the store under the id of the job created,
  which is not the id returned. The store is the one of section 4.1.
\<close>

theorem C10_error_returns_nil_uuid:
  "(snd (fst (GenerateResume s w rnd tc tu tf userID jobDescription metadata)) \<noteq> None \<longrightarrow>
      fst (fst (GenerateResume s w rnd tc tu tf userID jobDescription metadata)) = uuid_Nil) \<and>
   (fst (repo_CreateResumeGenerationJob gormRepository (resume_jobs w)
           (NewResumeGenerationJob rnd tc tu userID jobDescription metadata)) = None \<and>
    P (channel w)
      \<lparr>JobID = uuid_String (uuid_New rnd), WorkerUserID = uuid_String userID,
       WorkerJobDescription = jobDescription,
       WorkerMetadata =
         Metadata (NewResumeGenerationJob rnd tc tu userID jobDescription metadata)\<rparr> =
      (Some err, ch, published) \<longrightarrow>
      fst (GenerateResume \<lparr>repo = gormRepository, rabbitMQPublisher = P\<rparr> w rnd tc tu tf
             userID jobDescription metadata) = (uuid_Nil, Some err) \<and>
      (\<exists>job'.
         lookup_job
           (resume_jobs
              (snd (GenerateResume \<lparr>repo = gormRepository, rabbitMQPublisher = P\<rparr> w rnd tc tu
                      tf userID jobDescription metadata)))
           (ID job') = Some job' \<and>
         Status job' = ResumeJobStatusFailed \<and>
         ID job' = uuid_New rnd \<and>
         ID job' \<noteq>
           fst (fst (GenerateResume \<lparr>repo = gormRepository, rabbitMQPublisher = P\<rparr> w rnd tc
                       tu tf userID jobDescription metadata))))"
proof (intro conjI impI)
  assume "snd (fst (GenerateResume s w rnd tc tu tf userID jobDescription metadata)) \<noteq> None"
  then show "fst (fst (GenerateResume s w rnd tc tu tf userID jobDescription metadata)) = uuid_Nil"
    by (rule GenerateResume_error_Nil)
next
  let ?job = "NewResumeGenerationJob rnd tc tu userID jobDescription metadata"
  let ?failed = "MarkFailed tf ''Failed to queue job for processing'' ''QUEUE_ERROR'' ?job"
  let ?G = "GenerateResume \<lparr>repo = gormRepository, rabbitMQPublisher = P\<rparr> w rnd tc tu tf
              userID jobDescription metadata"
  assume a: "fst (repo_CreateResumeGenerationJob gormRepository (resume_jobs w) ?job) = None \<and>
    P (channel w)
      \<lparr>JobID = uuid_String (uuid_New rnd), WorkerUserID = uuid_String userID,
       WorkerJobDescription = jobDescription, WorkerMetadata = Metadata ?job\<rparr> =
      (Some err, ch, published)"
  then have create: "fst (repo_CreateResumeGenerationJob gormRepository (resume_jobs w) ?job) =
                       None"
    and pub: "P (channel w)
      \<lparr>JobID = uuid_String (uuid_New rnd), WorkerUserID = uuid_String userID,
       WorkerJobDescription = jobDescription, WorkerMetadata = Metadata ?job\<rparr> =
      (Some err, ch, published)"
    by blast+
  note run = GenerateResume_gorm_publish_failed [where P = P and tf = tf, OF create pub]
  from create have fresh: "lookup_job (resume_jobs w) (uuid_New rnd) = None"
    by (simp add: gormRepository_simps gorm_Create_fresh NewResumeGenerationJob_fields)
  show "fst ?G = (uuid_Nil, Some err)"
    by (simp add: run)
  have id: "ID ?failed = uuid_New rnd"
    by (simp add: Mark_ID NewResumeGenerationJob_fields)
  have "lookup_job (resume_jobs (snd ?G)) (ID ?failed) = Some ?failed"
    using fresh id by (simp add: run lookup_job_append)
  moreover have "Status ?failed = ResumeJobStatusFailed"
    by (simp add: MarkFailed_def)
  moreover have "ID ?failed \<noteq> fst (fst ?G)"
    using uuid_New_not_Nil [of rnd] by (simp add: run id)
  ultimately show "\<exists>job'.
         lookup_job (resume_jobs (snd ?G)) (ID job') = Some job' \<and>
         Status job' = ResumeJobStatusFailed \<and>
         ID job' = uuid_New rnd \<and>
         ID job' \<noteq> fst (fst ?G)"
    using id by blast
qed

text \<open>
  Claim C10 at the scenario with the broker down.
\<close>

theorem C10_error_returns_nil_uuid_witness:
  "snd (fst (GenerateResume
               \<lparr>repo = gormRepository,
                rabbitMQPublisher = rabbitMQPublisher_PublishResumeGenerationJob False\<rparr>
               broker_down_world 0 10 10 11 1 ''Senior Go Engineer'' scenario_metadata)) \<noteq> None \<and>
   fst (fst (GenerateResume
               \<lparr>repo = gormRepository,
                rabbitMQPublisher = rabbitMQPublisher_PublishResumeGenerationJob False\<rparr>
               broker_down_world 0 10 10 11 1 ''Senior Go Engineer'' scenario_metadata)) = uuid_Nil \<and>
   fst (repo_CreateResumeGenerationJob gormRepository (resume_jobs broker_down_world) J1) =
     None \<and>
   fst (rabbitMQPublisher_PublishResumeGenerationJob False (channel broker_down_world)
          \<lparr>JobID = uuid_String (uuid_New 0), WorkerUserID = uuid_String 1,
           WorkerJobDescription = ''Senior Go Engineer'', WorkerMetadata = Metadata J1\<rparr>) =
     Some (Errorf (''failed to publish job: '' @ Error ErrClosed)) \<and>
   (\<exists>job'.
      lookup_job
        (resume_jobs
           (snd (GenerateResume
                   \<lparr>repo = gormRepository,
                    rabbitMQPublisher = rabbitMQPublisher_PublishResumeGenerationJob False\<rparr>
                   broker_down_world 0 10 10 11 1 ''Senior Go Engineer'' scenario_metadata)))
        (ID job') = Some job' \<and>
      Status job' = ResumeJobStatusFailed \<and>
      ID job' = uuid_New 0 \<and>
      ID job' \<noteq> uuid_Nil)"
proof -
  let ?J = "NewResumeGenerationJob 0 10 10 1 ''Senior Go Engineer'' scenario_metadata"
  let ?P = "rabbitMQPublisher_PublishResumeGenerationJob False"
  let ?G = "GenerateResume \<lparr>repo = gormRepository, rabbitMQPublisher = ?P\<rparr>
              broker_down_world 0 10 10 11 1 ''Senior Go Engineer'' scenario_metadata"
  have create: "fst (repo_CreateResumeGenerationJob gormRepository
                       (resume_jobs broker_down_world) ?J) = None"
    using broker_down_fresh
    by (simp add: gormRepository_simps gorm_Create_fresh NewResumeGenerationJob_fields)
  note inst = C10_error_returns_nil_uuid
      [where s = "\<lparr>repo = gormRepository, rabbitMQPublisher = ?P\<rparr>" and P = ?P
         and w = broker_down_world and rnd = 0 and tc = 10 and tu = 10 and tf = 11
         and userID = 1 and jobDescription = "''Senior Go Engineer''"
         and metadata = scenario_metadata
         and err = "Errorf (''failed to publish job: '' @ Error ErrClosed)"
         and ch = "channel broker_down_world"
         and published = "[(LevelError, ''failed to publish job'',
                           [(''jobId'', uuid_String (uuid_New 0)),
                            (''error'', Error ErrClosed)])]"]
  from conjunct2 [OF inst, rule_format, OF conjI [OF create broker_down_publish]]
  have run: "fst ?G = (uuid_Nil, Some (Errorf (''failed to publish job: '' @ Error ErrClosed)))"
    and stored: "\<exists>job'.
         lookup_job (resume_jobs (snd ?G)) (ID job') = Some job' \<and>
         Status job' = ResumeJobStatusFailed \<and>
         ID job' = uuid_New 0 \<and>
         ID job' \<noteq> fst (fst ?G)"
    by blast+
  from stored obtain job' where
    j: "lookup_job (resume_jobs (snd ?G)) (ID job') = Some job'"
       "Status job' = ResumeJobStatusFailed"
       "ID job' = uuid_New 0"
       "ID job' \<noteq> fst (fst ?G)"
    by blast
  from j(4) run have "ID job' \<noteq> uuid_Nil" by simp
  with j have "\<exists>job'.
      lookup_job (resume_jobs (snd ?G)) (ID job') = Some job' \<and>
      Status job' = ResumeJobStatusFailed \<and>
      ID job' = uuid_New 0 \<and>
      ID job' \<noteq> uuid_Nil"
    by blast
  then show ?thesis
    using run create
    by (simp add: broker_down_publish J1_def)
qed

end
